theory Spec2Isabelle
  imports Main
begin

section \<open>The QR code webhook server (main.py)\<close>

text \<open>
  The program is a small web service. \<open>POST /webhook\<close> builds a destination URL from a
  base URL and a dictionary of parameters, draws a random slug, renders a QR image of the
  redirect URL \<open>.../r/SLUG\<close>, saves the image as \<open>SLUG.png\<close> and inserts a row
  into the SQLite table \<open>qr_codes\<close>. \<open>GET /r/SLUG\<close> looks the slug up, logs a row into
  \<open>qr_scans\<close> and redirects to the stored URL.

  Python strings are modelled as \<open>string\<close>, read as the UTF-8 bytes of the text (the
  form in which \<open>urllib.parse.quote\<close> processes them). The values the handlers take
  from their environment (the random tokens of \<open>secrets\<close>, the clock, the base URL and
  the client of the request) are parameters of the model, and so is what the environment
  does to the steps of the webhook that can fail.
\<close>

subsection \<open>Strings that cannot be encoded\<close>

text \<open>
  A JSON body can carry a lone surrogate (\<open>"\\ud800"\<close>), and a Python string that holds
  one has no UTF-8 encoding: \<open>str.encode\<close> raises \<open>UnicodeEncodeError\<close>, inside
  \<open>urlencode\<close> and when \<open>sqlite3\<close> binds the string to a statement. Such a code
  point, U+D800 to U+DFFF, is written here as the three bytes that the error handler
  \<open>surrogatepass\<close> gives it: \<open>0xED\<close>, then a byte from \<open>0xA0\<close> to \<open>0xBF\<close>, then a
  continuation byte. In UTF-8 proper the byte after \<open>0xED\<close> is below \<open>0xA0\<close>.
\<close>

fun has_surrogate :: "string \<Rightarrow> bool" where
  "has_surrogate (a # b # s) =
     ((of_char a = (237::nat) \<and> (160::nat) \<le> of_char b \<and> of_char b \<le> (191::nat))
      \<or> has_surrogate (b # s))"
| "has_surrogate [a] = False"
| "has_surrogate [] = False"

subsection \<open>urllib.parse.urlencode, as the handler calls it\<close>

text \<open>
  The handler calls \<open>urlencode(payload.params)\<close> on a \<open>Dict[str, str]\<close> with the default
  arguments, so every key and value goes through \<open>quote_plus\<close> with no extra safe
  characters: a byte of \<open>_ALWAYS_SAFE\<close> stays, a space becomes \<open>+\<close>, and every other
  byte becomes \<open>%XX\<close> with two upper-case hexadecimal digits. The pairs \<open>key=value\<close> are
  joined with \<open>&\<close> in the order of \<open>dict.items()\<close>; the dictionary is the association
  list of its items.
\<close>

definition ALWAYS_SAFE :: string where
  "ALWAYS_SAFE = ''ABCDEFGHIJKLMNOPQRSTUVWXYZabcdefghijklmnopqrstuvwxyz0123456789_.-~''"

definition hex_digit :: "nat \<Rightarrow> char" where
  "hex_digit n = ''0123456789ABCDEF'' ! (n mod 16)"

definition quote_byte :: "char \<Rightarrow> string" where
  "quote_byte c =
     (if c \<in> set ALWAYS_SAFE then [c]
      else if c = CHR '' '' then ''+''
      else [CHR ''%'', hex_digit (of_char c div 16), hex_digit (of_char c mod 16)])"

definition quote_plus :: "string \<Rightarrow> string" where
  "quote_plus s = concat (map quote_byte s)"

fun join :: "string \<Rightarrow> string list \<Rightarrow> string" where
  "join sep [] = []"
| "join sep [x] = x"
| "join sep (x # y # ys) = x @ sep @ join sep (y # ys)"

definition urlencode :: "(string \<times> string) list \<Rightarrow> string" where
  "urlencode query = join ''&'' (map (\<lambda>(k, v). quote_plus k @ ''='' @ quote_plus v) query)"

text \<open>\<open>urlencode\<close> raises when a key or a value cannot be encoded.\<close>

definition urlencode_raises :: "(string \<times> string) list \<Rightarrow> bool" where
  "urlencode_raises query = list_ex (\<lambda>(k, v). has_surrogate k \<or> has_surrogate v) query"

subsection \<open>pathlib: the string of a directory path joined with a name\<close>

text \<open>
  \<open>str(QR_DIR / filename)\<close> for POSIX paths, where \<open>QR_DIR\<close> is \<open>Path(dir)\<close>: the two
  strings are joined as \<open>posixpath.join\<close> does (a name that starts with a slash replaces
  the directory), the root is one slash, or two when the string starts with exactly two,
  the rest is split at the slashes, empty components and \<open>.\<close> are dropped, and the path
  with no root and no component is written \<open>.\<close>.
\<close>

definition posixpath_join :: "string \<Rightarrow> string \<Rightarrow> string" where
  "posixpath_join a b =
     (if take 1 b = ''/'' then b
      else if a = [] \<or> last a = CHR ''/'' then a @ b
      else a @ ''/'' @ b)"

definition splitroot :: "string \<Rightarrow> string \<times> string" where
  "splitroot p =
     (if take 1 p \<noteq> ''/'' then ([], p)
      else if take 1 (drop 1 p) \<noteq> ''/'' \<or> take 1 (drop 2 p) = ''/'' then (''/'', drop 1 p)
      else (''//'', drop 2 p))"

fun split_sep :: "string \<Rightarrow> string list" where
  "split_sep [] = [[]]"
| "split_sep (c # s) =
     (if c = CHR ''/'' then [] # split_sep s
      else (case split_sep s of x # xs \<Rightarrow> (c # x) # xs | [] \<Rightarrow> [[c]]))"

definition path_str :: "string \<Rightarrow> string" where
  "path_str p =
     (let (root, rel) = splitroot p;
          parts = filter (\<lambda>x. x \<noteq> [] \<and> x \<noteq> ''.'') (split_sep rel);
          s = root @ join ''/'' parts
      in if s = [] then ''.'' else s)"

definition joinpath :: "string \<Rightarrow> string \<Rightarrow> string" where
  "joinpath dir name = path_str (posixpath_join dir name)"

subsection \<open>Data\<close>

text \<open>\<open>WebhookPayload\<close>: the request body of \<open>POST /webhook\<close>.\<close>

record WebhookPayload =
  params :: "(string \<times> string) list"
  base_url :: string

text \<open>The default of the field \<open>base_url\<close> when the body omits it.\<close>

definition WebhookPayload_default :: "(string \<times> string) list \<Rightarrow> WebhookPayload" where
  "WebhookPayload_default ps = \<lparr>params = ps, base_url = ''https://example.com''\<rparr>"

text \<open>
  A row of table \<open>qr_codes\<close> without its primary key \<open>slug\<close> (the key of the map
  below), and a row of table \<open>qr_scans\<close>.
\<close>

record qr_codes_row =
  url :: string
  file_path :: string
  created_at :: string

record qr_scans_row =
  scan_id :: nat
  scan_slug :: string
  scan_ip :: string
  scanned_at :: string

text \<open>
  \<open>qrcode.make\<close> is the external renderer, a pure function from a text to an image; an
  image is represented by the text it encodes.
\<close>

datatype image = QRImage string

definition qrcode_make :: "string \<Rightarrow> image" where
  "qrcode_make text = QRImage text"

fun image_payload :: "image \<Rightarrow> string" where
  "image_payload (QRImage text) = text"

text \<open>
  The state of the service:
  \<^item> \<open>tokens\<close> is the dictionary \<open>fake_tokens_db\<close>;
  \<^item> \<open>qr_codes\<close> is the table of that name, a map from the primary key \<open>slug\<close> to the
    rest of the row;
  \<^item> \<open>qr_scans\<close> is the table of that name, its rows in insertion order, and \<open>scan_seq\<close>
    is the largest \<open>id\<close> the table has ever assigned (what SQLite keeps for an
    \<open>AUTOINCREMENT\<close> column);
  \<^item> \<open>files\<close> maps the name of each image file in the directory \<open>QR_DIR\<close> to its
    content, and \<open>qr_dir\<close> is the string that \<open>QR_DIR\<close> was made from (the environment
    variable of that name, or \<open>qr_codes\<close>);
  \<^item> \<open>other_files\<close> holds the other names \<open>n\<close> for which \<open>QR_DIR / n\<close> exists: the
    database file when it lies in the directory, and \<open>.\<close> and \<open>..\<close>.
  A file name is a single path component, as \<open>slug.png\<close> is for a slug of
  \<open>token_urlsafe\<close> and as the path parameter of \<open>GET /qr/{filename}\<close> is. The capacity
  limits of the storage (the largest 64-bit row id) are not modelled, and requests are
  served one after the other.
\<close>

record state =
  tokens :: "string \<rightharpoonup> string"
  qr_codes :: "string \<rightharpoonup> qr_codes_row"
  qr_scans :: "qr_scans_row list"
  scan_seq :: nat
  files :: "string \<rightharpoonup> image"
  qr_dir :: string
  other_files :: "string set"

text \<open>
  What a handler raises: an \<open>HTTPException\<close> with its status code and detail, or one of
  the exceptions that no handler catches: \<open>sqlite3.IntegrityError\<close> for a violated
  constraint, \<open>sqlite3.OperationalError\<close> when the database cannot be written,
  \<open>UnicodeEncodeError\<close> for a string with a lone surrogate,
  \<open>qrcode.exceptions.DataOverflowError\<close> for a text too long for a QR code, and
  \<open>OSError\<close> when the image file cannot be written.
\<close>

datatype error =
    HTTPException nat string
  | IntegrityError
  | OperationalError
  | UnicodeEncodeError
  | DataOverflowError
  | OSError

datatype response =
    TokenResponse string
  | JSONResponse "(string \<times> string) list"
  | RedirectResponse string
  | FileResponse string

type_synonym outcome = "(error + response) \<times> state"

text \<open>
  What the environment does to one webhook request: whether the renderer has room for a
  text (the capacity of a QR code, a function of the text that is not computed here),
  whether the image file can be written, and whether the database can be written.
\<close>

record environment =
  qr_fits :: "string \<Rightarrow> bool"
  save_ok :: bool
  db_ok :: bool

subsection \<open>The schema of the database\<close>

text \<open>
  The two \<open>CREATE TABLE\<close> statements of \<open>init_db\<close>, column by column with the
  constraints as they are written. Neither table declares a foreign key.
\<close>

datatype sql_type = TEXT | INTEGER

datatype column_constraint =
    PRIMARY_KEY
  | AUTOINCREMENT
  | NOT_NULL
  | REFERENCES string string

type_synonym table_schema = "(string \<times> sql_type \<times> column_constraint list) list"

definition qr_codes_schema :: table_schema where
  "qr_codes_schema =
     [(''slug'', TEXT, [PRIMARY_KEY]),
      (''url'', TEXT, [NOT_NULL]),
      (''file_path'', TEXT, [NOT_NULL]),
      (''created_at'', TEXT, [NOT_NULL])]"

definition qr_scans_schema :: table_schema where
  "qr_scans_schema =
     [(''id'', INTEGER, [PRIMARY_KEY, AUTOINCREMENT]),
      (''slug'', TEXT, [NOT_NULL]),
      (''ip'', TEXT, [NOT_NULL]),
      (''scanned_at'', TEXT, [NOT_NULL])]"

text \<open>
  The state after the first start-up of a new deployment with the default \<open>DB_PATH\<close>:
  \<open>init_db\<close> has created the database file in the directory, with two empty tables.
\<close>

definition init_db :: "string \<Rightarrow> state" where
  "init_db dir = \<lparr>tokens = Map.empty, qr_codes = Map.empty, qr_scans = [], scan_seq = 0,
                  files = Map.empty, qr_dir = dir,
                  other_files = {''qr_codes.db'', ''.'', ''..''}\<rparr>"

subsection \<open>The three SQL statements\<close>

text \<open>
  What an \<open>INSERT\<close> checks. A value is \<open>NULL\<close>, a text or an integer. \<open>has_key\<close> tells
  whether a key column of a table holds a value; the key columns are \<open>qr_codes.slug\<close>
  and \<open>qr_scans.id\<close>. A column constraint holds of the value given for its column:
  \<open>NOT NULL\<close> refuses \<open>NULL\<close>, \<open>PRIMARY KEY\<close> refuses a value the column already
  holds, and \<open>REFERENCES\<close> refuses a value that the column it names does not hold.
  (SQLite checks \<open>REFERENCES\<close> only when the connection has turned foreign keys on,
  which no connection here does; the model checks it wherever it is declared.)
  A column that the statement leaves out gets \<open>NULL\<close>, except the integer primary key,
  which the engine assigns.
\<close>

datatype sql_value = SqlNull | SqlText string | SqlInteger nat

definition has_key :: "state \<Rightarrow> string \<Rightarrow> string \<Rightarrow> sql_value \<Rightarrow> bool" where
  "has_key st table column v =
     (case v of
        SqlNull \<Rightarrow> False
      | SqlText s \<Rightarrow> table = ''qr_codes'' \<and> column = ''slug'' \<and> qr_codes st s \<noteq> None
      | SqlInteger n \<Rightarrow>
          table = ''qr_scans'' \<and> column = ''id'' \<and> n \<in> set (map scan_id (qr_scans st)))"

fun constraint_ok ::
  "state \<Rightarrow> string \<Rightarrow> string \<Rightarrow> sql_value \<Rightarrow> column_constraint \<Rightarrow> bool" where
  "constraint_ok st table column v NOT_NULL = (v \<noteq> SqlNull)"
| "constraint_ok st table column v PRIMARY_KEY = (\<not> has_key st table column v)"
| "constraint_ok st table column v AUTOINCREMENT = True"
| "constraint_ok st table column v (REFERENCES table' column') =
     (v = SqlNull \<or> has_key st table' column' v)"

definition row_ok ::
  "state \<Rightarrow> string \<Rightarrow> table_schema \<Rightarrow> (string \<times> sql_value) list \<Rightarrow> bool" where
  "row_ok st table schema vals =
     list_all (\<lambda>(column, ty, constraints).
        case map_of vals column of
          Some v \<Rightarrow> list_all (constraint_ok st table column v) constraints
        | None \<Rightarrow>
            (ty = INTEGER \<and> PRIMARY_KEY \<in> set constraints) \<or>
            list_all (constraint_ok st table column SqlNull) constraints) schema"

text \<open>
  \<open>INSERT INTO qr_codes(slug, url, file_path, created_at)\<close> on a table with the given
  schema: a violated constraint raises \<open>IntegrityError\<close> and the transaction is rolled
  back. With the schema of \<open>init_db\<close> that is the case of a slug that is present.
\<close>

definition insert_into_qr_codes ::
  "table_schema \<Rightarrow> state \<Rightarrow> string \<Rightarrow> qr_codes_row \<Rightarrow> error + state" where
  "insert_into_qr_codes schema st slug row =
     (if row_ok st ''qr_codes'' schema
           [(''slug'', SqlText slug), (''url'', SqlText (url row)),
            (''file_path'', SqlText (file_path row)), (''created_at'', SqlText (created_at row))]
      then Inr (st\<lparr>qr_codes := (qr_codes st)(slug \<mapsto> row)\<rparr>)
      else Inl IntegrityError)"

definition insert_qr_code :: "state \<Rightarrow> string \<Rightarrow> qr_codes_row \<Rightarrow> error + state" where
  "insert_qr_code = insert_into_qr_codes qr_codes_schema"

text \<open>\<open>SELECT url FROM qr_codes WHERE slug=?\<close> followed by \<open>fetchone()\<close>.\<close>

definition select_url :: "state \<Rightarrow> string \<Rightarrow> string option" where
  "select_url st slug = map_option url (qr_codes st slug)"

text \<open>
  \<open>INSERT INTO qr_scans(slug, ip, scanned_at)\<close> on a table with the given schema: the
  statement leaves \<open>id\<close> out, and the \<open>id\<close> of the new row is one more than the largest
  id assigned so far.
\<close>

definition append_scan :: "state \<Rightarrow> string \<Rightarrow> string \<Rightarrow> string \<Rightarrow> state" where
  "append_scan st slug ip now =
     st\<lparr>qr_scans := qr_scans st @
            [\<lparr>scan_id = scan_seq st + 1, scan_slug = slug, scan_ip = ip, scanned_at = now\<rparr>],
        scan_seq := scan_seq st + 1\<rparr>"

definition insert_into_qr_scans ::
  "table_schema \<Rightarrow> state \<Rightarrow> string \<Rightarrow> string \<Rightarrow> string \<Rightarrow> error + state" where
  "insert_into_qr_scans schema st slug ip now =
     (if row_ok st ''qr_scans'' schema
           [(''slug'', SqlText slug), (''ip'', SqlText ip), (''scanned_at'', SqlText now)]
      then Inr (append_scan st slug ip now)
      else Inl IntegrityError)"

definition insert_qr_scan :: "state \<Rightarrow> string \<Rightarrow> string \<Rightarrow> string \<Rightarrow> error + state" where
  "insert_qr_scan = insert_into_qr_scans qr_scans_schema"


subsection \<open>Authentication\<close>

definition fake_users_db :: "string \<rightharpoonup> (string \<times> string \<times> string)" where
  "fake_users_db =
     [''user@example.com'' \<mapsto> (''user@example.com'', ''Example User'', ''secret'')]"

definition hashed_password :: "string \<times> string \<times> string \<Rightarrow> string" where
  "hashed_password user_dict = snd (snd user_dict)"

text \<open>\<open>POST /token\<close>; \<open>token\<close> is the value of \<open>secrets.token_urlsafe(16)\<close>.\<close>

definition login :: "state \<Rightarrow> string \<Rightarrow> string \<Rightarrow> string \<Rightarrow> outcome" where
  "login st username password token =
     (case fake_users_db username of
        None \<Rightarrow> (Inl (HTTPException 401 ''Incorrect username or password''), st)
      | Some user_dict \<Rightarrow>
          if password \<noteq> hashed_password user_dict
          then (Inl (HTTPException 401 ''Incorrect username or password''), st)
          else (Inr (TokenResponse token), st\<lparr>tokens := (tokens st)(token \<mapsto> username)\<rparr>))"

definition get_current_user :: "state \<Rightarrow> string \<Rightarrow> error + string" where
  "get_current_user st token =
     (case tokens st token of
        None \<Rightarrow> Inl (HTTPException 401 ''Invalid authentication credentials'')
      | Some username \<Rightarrow>
          if username = [] then Inl (HTTPException 401 ''Invalid authentication credentials'')
          else Inr username)"

subsection \<open>POST /webhook\<close>

text \<open>Lines 113 to 116: the final destination URL.\<close>

definition destination_url :: "WebhookPayload \<Rightarrow> string" where
  "destination_url payload =
     (if params payload \<noteq> [] then base_url payload @ ''?'' @ urlencode (params payload)
      else base_url payload)"

text \<open>
  The body of the handler once the dependency \<open>get_current_user\<close> has returned.
  \<open>request_base_url\<close> is \<open>str(request.base_url)\<close>, \<open>slug\<close> is the value of
  \<open>secrets.token_urlsafe(8)\<close> and \<open>now\<close> that of \<open>datetime.utcnow().isoformat()\<close>.
  The steps, in the order of the source, each with the exception that ends the request
  there:
  \<^item> line 116, \<open>urlencode\<close> of parameters that cannot be encoded;
  \<^item> line 125, \<open>qrcode.make\<close> of a text that does not fit;
  \<^item> line 129, \<open>img.save\<close> when the file cannot be written (the directory is then
    taken to be as it was);
  \<^item> lines 132 to 138, the insertion: the database cannot be written, a bound string
    cannot be encoded, or a constraint is violated.
  The image is saved before the row is inserted; when the insertion raises, the
  transaction is rolled back and the saved file stays.
\<close>

definition receive_webhook ::
  "environment \<Rightarrow> state \<Rightarrow> WebhookPayload \<Rightarrow> string \<Rightarrow> string \<Rightarrow> string \<Rightarrow> outcome" where
  "receive_webhook env st payload request_base_url slug now =
     (if params payload \<noteq> [] \<and> urlencode_raises (params payload)
      then (Inl UnicodeEncodeError, st)
      else
        let redirect_url = request_base_url @ ''r/'' @ slug in
        if \<not> qr_fits env redirect_url then (Inl DataOverflowError, st)
        else
          let img = qrcode_make redirect_url;
              filename = slug @ ''.png'';
              filepath = joinpath (qr_dir st) filename in
          if \<not> save_ok env then (Inl OSError, st)
          else
            let st1 = st\<lparr>files := (files st)(filename \<mapsto> img)\<rparr> in
            if \<not> db_ok env then (Inl OperationalError, st1)
            else if list_ex has_surrogate [slug, destination_url payload, filepath, now]
            then (Inl UnicodeEncodeError, st1)
            else
              case insert_qr_code st1 slug
                     \<lparr>url = destination_url payload, file_path = filepath, created_at = now\<rparr> of
                Inl e \<Rightarrow> (Inl e, st1)
              | Inr st2 \<Rightarrow>
                  (Inr (JSONResponse [(''qr_code_url'', ''/static/'' @ filename),
                                      (''redirect_url'', redirect_url)]), st2))"

definition webhook_endpoint ::
  "environment \<Rightarrow> state \<Rightarrow> string \<Rightarrow> WebhookPayload \<Rightarrow> string \<Rightarrow> string \<Rightarrow> string \<Rightarrow> outcome"
  where
  "webhook_endpoint env st token payload request_base_url slug now =
     (case get_current_user st token of
        Inl e \<Rightarrow> (Inl e, st)
      | Inr user \<Rightarrow> receive_webhook env st payload request_base_url slug now)"

subsection \<open>GET /r/{slug}\<close>

text \<open>
  \<open>client\<close> is \<open>request.client\<close>, reduced to its host when there is one. The response is
  built from the stored URL as the handler passes it to \<open>RedirectResponse\<close>. The
  database is taken to be available to this handler; the insertion can still be refused
  by a constraint of the schema.
\<close>

definition follow_qr :: "state \<Rightarrow> string \<Rightarrow> string option \<Rightarrow> string \<Rightarrow> outcome" where
  "follow_qr st slug client now =
     (case select_url st slug of
        None \<Rightarrow> (Inl (HTTPException 404 ''Unknown QR code''), st)
      | Some final_url \<Rightarrow>
          (let ip = (case client of Some host \<Rightarrow> host | None \<Rightarrow> [])
           in case insert_qr_scan st slug ip now of
                Inl e \<Rightarrow> (Inl e, st)
              | Inr st' \<Rightarrow> (Inr (RedirectResponse final_url), st')))"

subsection \<open>GET /qr/{filename}\<close>

text \<open>
  The handler answers with any path that exists in the directory, an image or not, and
  builds the response from the path.
\<close>

definition get_qr_code :: "state \<Rightarrow> string \<Rightarrow> string \<Rightarrow> outcome" where
  "get_qr_code st filename token =
     (case get_current_user st token of
        Inl e \<Rightarrow> (Inl e, st)
      | Inr user \<Rightarrow>
          (let filepath = joinpath (qr_dir st) filename in
           if files st filename = None \<and> filename \<notin> other_files st
           then (Inl (HTTPException 404 ''File not found''), st)
           else (Inr (FileResponse filepath), st)))"

subsection \<open>Runs of the service\<close>

text \<open>A request with the values its handler draws from the environment.\<close>

datatype request =
    Login string string string
  | Webhook environment string WebhookPayload string string string
  | FollowQR string "string option" string
  | GetQR string string

fun handle :: "state \<Rightarrow> request \<Rightarrow> outcome" where
  "handle st (Login username password token) = login st username password token"
| "handle st (Webhook env token payload request_base_url slug now) =
     webhook_endpoint env st token payload request_base_url slug now"
| "handle st (FollowQR slug client now) = follow_qr st slug client now"
| "handle st (GetQR filename token) = get_qr_code st filename token"

fun run :: "state \<Rightarrow> request list \<Rightarrow> state" where
  "run st [] = st"
| "run st (r # rs) = run (snd (handle st r)) rs"

text \<open>The slugs that the webhook requests of a run were given.\<close>

fun webhook_slugs :: "request list \<Rightarrow> string set" where
  "webhook_slugs [] = {}"
| "webhook_slugs (Webhook env token payload request_base_url slug now # rs) =
     insert slug (webhook_slugs rs)"
| "webhook_slugs (r # rs) = webhook_slugs rs"

subsection \<open>Example runs\<close>

text \<open>An environment in which no step fails.\<close>

definition calm :: environment where
  "calm = \<lparr>qr_fits = (\<lambda>text. True), save_ok = True, db_ok = True\<rparr>"

text \<open>A log-in, one issued link and one scan of it.\<close>

definition example_run :: "request list" where
  "example_run =
     [Login ''user@example.com'' ''secret'' ''tok'',
      Webhook calm ''tok'' (WebhookPayload_default [(''a'', ''1'')]) ''http://qr.test/''
        ''Zm9vYmFyMTI'' ''t0'',
      FollowQR ''Zm9vYmFyMTI'' (Some ''203.0.113.7'') ''t1'']"

text \<open>
  The ids of the scan log are in order: strictly increasing along the table, and none
  above the largest id assigned so far.
\<close>

definition scan_ids_ok :: "state \<Rightarrow> bool" where
  "scan_ids_ok st \<longleftrightarrow>
     sorted_wrt (<) (map scan_id (qr_scans st)) \<and>
     list_all (\<lambda>e. scan_id e \<le> scan_seq st) (qr_scans st)"

text \<open>The state after the first link has been issued.\<close>

definition example_state :: state where
  "example_state =
     snd (receive_webhook calm (init_db ''qr_codes'') (WebhookPayload_default [(''a'', ''1'')])
            ''http://qr.test/'' ''Zm9vYmFyMTI'' ''t0'')"

text \<open>
  Later traffic: a scan, a log-in, a webhook that is given the slug of the first link
  again, a webhook with a new slug, a webhook with a third slug while the database
  cannot be written, and a download of the first image.
\<close>

definition example_traffic :: "request list" where
  "example_traffic =
     [FollowQR ''Zm9vYmFyMTI'' None ''t1'',
      Login ''user@example.com'' ''secret'' ''tok'',
      Webhook calm ''tok'' \<lparr>params = [], base_url = ''https://other.example''\<rparr>
        ''http://evil.test/'' ''Zm9vYmFyMTI'' ''t2'',
      Webhook calm ''tok'' \<lparr>params = [], base_url = ''https://other.example''\<rparr>
        ''http://qr.test/'' ''c2Vjb25kc2x1Zw'' ''t3'',
      Webhook (calm\<lparr>db_ok := False\<rparr>) ''tok''
        \<lparr>params = [], base_url = ''https://other.example''\<rparr>
        ''http://qr.test/'' ''dGhpcmRzbHU'' ''t4'',
      GetQR ''Zm9vYmFyMTI.png'' ''tok'']"

text \<open>
  The request passes every step of the webhook before the constraints of the insertion
  are checked.
\<close>

definition reaches_insert ::
  "environment \<Rightarrow> state \<Rightarrow> WebhookPayload \<Rightarrow> string \<Rightarrow> string \<Rightarrow> string \<Rightarrow> bool" where
  "reaches_insert env st payload request_base_url slug now \<longleftrightarrow>
     \<not> (params payload \<noteq> [] \<and> urlencode_raises (params payload)) \<and>
     qr_fits env (request_base_url @ ''r/'' @ slug) \<and> save_ok env \<and> db_ok env \<and>
     \<not> list_ex has_surrogate
          [slug, destination_url payload, joinpath (qr_dir st) (slug @ ''.png''), now]"

text \<open>Every link of \<open>qr_codes\<close> has its image file in the directory.\<close>

definition images_present :: "state \<Rightarrow> bool" where
  "images_present st \<longleftrightarrow> (\<forall>slug. qr_codes st slug \<noteq> None \<longrightarrow> files st (slug @ ''.png'') \<noteq> None)"

text \<open>
  The request passes the steps of the webhook up to the saving of the image, so that the
  image file is written.
\<close>

definition image_saved :: "environment \<Rightarrow> WebhookPayload \<Rightarrow> string \<Rightarrow> string \<Rightarrow> bool" where
  "image_saved env payload request_base_url slug \<longleftrightarrow>
     \<not> (params payload \<noteq> [] \<and> urlencode_raises (params payload)) \<and>
     qr_fits env (request_base_url @ ''r/'' @ slug) \<and> save_ok env"

section \<open>Properties of the URL encoding\<close>

lemma hex_digit_mem: "hex_digit n \<in> set ''0123456789ABCDEF''"
  unfolding hex_digit_def by (rule nth_mem) simp

lemma hex_digit_safe: "hex_digit n \<in> set ALWAYS_SAFE"
  using hex_digit_mem [of n] by (auto simp: ALWAYS_SAFE_def)

lemma quote_byte_chars:
  "set (quote_byte c) \<subseteq> set ALWAYS_SAFE \<union> {CHR ''+'', CHR ''%''}"
  by (simp add: quote_byte_def hex_digit_safe)

lemma quote_plus_chars:
  "set (quote_plus s) \<subseteq> set ALWAYS_SAFE \<union> {CHR ''+'', CHR ''%''}"
  using quote_byte_chars by (auto simp: quote_plus_def)

lemma join_chars: "set (join sep xs) \<subseteq> set sep \<union> (\<Union>x\<in>set xs. set x)"
  by (induction sep xs rule: join.induct) auto

lemma urlencode_chars:
  "set (urlencode query) \<subseteq> set ALWAYS_SAFE \<union> {CHR ''+'', CHR ''%'', CHR ''='', CHR ''&''}"
proof
  fix c assume "c \<in> set (urlencode query)"
  then have "c \<in> set ''&'' \<union> (\<Union>x\<in>set (map (\<lambda>(k, v). quote_plus k @ ''='' @ quote_plus v) query). set x)"
    using join_chars unfolding urlencode_def by blast
  then show "c \<in> set ALWAYS_SAFE \<union> {CHR ''+'', CHR ''%'', CHR ''='', CHR ''&''}"
    using quote_plus_chars by fastforce
qed

lemma question_mark_not_safe: "CHR ''?'' \<notin> set ALWAYS_SAFE"
  by (simp add: ALWAYS_SAFE_def)

lemma urlencode_no_question_mark: "CHR ''?'' \<notin> set (urlencode query)"
  using urlencode_chars [of query] question_mark_not_safe by auto

lemma quote_plus_safe: "set s \<subseteq> set ALWAYS_SAFE \<Longrightarrow> quote_plus s = s"
  by (induction s) (auto simp: quote_plus_def quote_byte_def)

text \<open>The encoding of a key or value can be read back: it is injective.\<close>

lemma of_char_less_256: "of_char c < (256::nat)"
proof -
  have "(of_char c :: nat) mod 256 < 256" by simp
  then show ?thesis by (simp only: of_char_mod_256)
qed

lemma hex_digit_inj:
  assumes "hex_digit m = hex_digit n" and "m < 16" and "n < 16"
  shows "m = n"
proof -
  have d: "distinct ''0123456789ABCDEF''" by simp
  have l: "length ''0123456789ABCDEF'' = 16" by simp
  from assms have "''0123456789ABCDEF'' ! m = ''0123456789ABCDEF'' ! n"
    by (simp add: hex_digit_def)
  with d assms(2,3) l show ?thesis
    by (simp only: nth_eq_iff_index_eq)
qed

lemma hex_pair_inj:
  assumes "hex_digit (of_char c div 16) = hex_digit (of_char d div 16)"
    and "hex_digit (of_char c mod 16) = hex_digit (of_char d mod 16)"
  shows "c = d"
proof -
  have b: "n div 16 < 16" if "n < 256" for n :: nat
    using that by arith
  have c: "(of_char c :: nat) div 16 < 16" and d: "(of_char d :: nat) div 16 < 16"
    using of_char_less_256 by (rule b)+
  have hi: "(of_char c :: nat) div 16 = of_char d div 16"
    using hex_digit_inj [OF assms(1) c d] .
  have lo: "(of_char c :: nat) mod 16 = of_char d mod 16"
    using hex_digit_inj [OF assms(2)] by simp
  have "(of_char c :: nat) = of_char d"
    using hi lo by (metis div_mult_mod_eq)
  then show ?thesis by simp
qed

lemma plus_percent_not_safe:
  "CHR ''+'' \<notin> set ALWAYS_SAFE" "CHR ''%'' \<notin> set ALWAYS_SAFE"
  by (simp_all add: ALWAYS_SAFE_def)

lemma quote_byte_prefix_free:
  assumes "quote_byte c @ xs = quote_byte d @ ys"
  shows "c = d \<and> xs = ys"
proof -
  consider (safe) "c \<in> set ALWAYS_SAFE" | (space) "c \<notin> set ALWAYS_SAFE" "c = CHR '' ''"
    | (other) "c \<notin> set ALWAYS_SAFE" "c \<noteq> CHR '' ''" by blast
  then show ?thesis
  proof cases
    case safe
    then have c: "quote_byte c = [c]" by (simp add: quote_byte_def)
    from safe have ne: "c \<noteq> CHR ''+''" "c \<noteq> CHR ''%''"
      using plus_percent_not_safe by auto
    show ?thesis
      using assms c ne by (auto simp: quote_byte_def split: if_splits)
  next
    case space
    then have c: "quote_byte c = ''+''" by (simp add: quote_byte_def)
    show ?thesis
      using assms c space plus_percent_not_safe
      by (auto simp: quote_byte_def split: if_splits)
  next
    case other
    then have c: "quote_byte c =
        [CHR ''%'', hex_digit (of_char c div 16), hex_digit (of_char c mod 16)]"
      by (simp add: quote_byte_def)
    show ?thesis
    proof (cases "d \<in> set ALWAYS_SAFE \<or> d = CHR '' ''")
      case True
      then show ?thesis
        using assms c plus_percent_not_safe
        by (auto simp: quote_byte_def split: if_splits)
    next
      case False
      then have d: "quote_byte d =
          [CHR ''%'', hex_digit (of_char d div 16), hex_digit (of_char d mod 16)]"
        by (simp add: quote_byte_def)
      from assms c d have "hex_digit (of_char c div 16) = hex_digit (of_char d div 16)"
        and "hex_digit (of_char c mod 16) = hex_digit (of_char d mod 16)" and "xs = ys"
        by simp_all
      then show ?thesis using hex_pair_inj by blast
    qed
  qed
qed

lemma quote_byte_not_Nil: "quote_byte c \<noteq> []"
  by (simp add: quote_byte_def)

lemma quote_plus_inj: "quote_plus a = quote_plus b \<Longrightarrow> a = b"
proof (induction a arbitrary: b)
  case Nil
  then show ?case
    by (cases b) (simp_all add: quote_plus_def quote_byte_not_Nil)
next
  case (Cons c a)
  show ?case
  proof (cases b)
    case Nil
    with Cons.prems show ?thesis by (simp add: quote_plus_def quote_byte_not_Nil)
  next
    case (Cons d b')
    with Cons.prems have "quote_byte c @ quote_plus a = quote_byte d @ quote_plus b'"
      by (simp add: quote_plus_def)
    then have "c = d" and "quote_plus a = quote_plus b'"
      using quote_byte_prefix_free by blast+
    with Cons.IH Cons show ?thesis by simp
  qed
qed

section \<open>Properties of the handlers\<close>

subsection \<open>The insertions under the schema of the database\<close>

lemma append_scan_simps:
  "qr_codes (append_scan st slug ip now) = qr_codes st"
  "files (append_scan st slug ip now) = files st"
  "tokens (append_scan st slug ip now) = tokens st"
  "qr_dir (append_scan st slug ip now) = qr_dir st"
  "other_files (append_scan st slug ip now) = other_files st"
  "scan_seq (append_scan st slug ip now) = scan_seq st + 1"
  "qr_scans (append_scan st slug ip now) = qr_scans st @
     [\<lparr>scan_id = scan_seq st + 1, scan_slug = slug, scan_ip = ip, scanned_at = now\<rparr>]"
  by (simp_all add: append_scan_def)

lemma row_ok_qr_scans:
  "row_ok st ''qr_scans'' qr_scans_schema
     [(''slug'', SqlText slug), (''ip'', SqlText ip), (''scanned_at'', SqlText now)]"
  by (simp add: row_ok_def qr_scans_schema_def)

lemma insert_qr_scan_eq: "insert_qr_scan st slug ip now = Inr (append_scan st slug ip now)"
  by (simp add: insert_qr_scan_def insert_into_qr_scans_def row_ok_qr_scans)


lemma row_ok_qr_codes:
  "row_ok st ''qr_codes'' qr_codes_schema
     [(''slug'', SqlText slug), (''url'', SqlText u), (''file_path'', SqlText f),
      (''created_at'', SqlText t)]
   \<longleftrightarrow> qr_codes st slug = None"
  by (simp add: row_ok_def qr_codes_schema_def has_key_def)

lemma insert_qr_code_eq:
  "insert_qr_code st slug row =
     (case qr_codes st slug of
        Some _ \<Rightarrow> Inl IntegrityError
      | None \<Rightarrow> Inr (st\<lparr>qr_codes := (qr_codes st)(slug \<mapsto> row)\<rparr>))"
  by (simp add: insert_qr_code_def insert_into_qr_codes_def row_ok_qr_codes split: option.splits)

subsection \<open>The outcomes of the webhook\<close>

lemma receive_webhook_fresh:
  assumes "reaches_insert env st payload rb slug now" and "qr_codes st slug = None"
  shows "receive_webhook env st payload rb slug now =
    (Inr (JSONResponse [(''qr_code_url'', ''/static/'' @ slug @ ''.png''),
                        (''redirect_url'', rb @ ''r/'' @ slug)]),
     st\<lparr>files := (files st)(slug @ ''.png'' \<mapsto> qrcode_make (rb @ ''r/'' @ slug)),
        qr_codes := (qr_codes st)(slug \<mapsto>
          \<lparr>url = destination_url payload, file_path = joinpath (qr_dir st) (slug @ ''.png''),
           created_at = now\<rparr>)\<rparr>)"
  using assms
  by (simp add: receive_webhook_def reaches_insert_def insert_qr_code_eq Let_def)

lemma receive_webhook_duplicate:
  assumes "reaches_insert env st payload rb slug now" and "qr_codes st slug = Some row"
  shows "receive_webhook env st payload rb slug now =
    (Inl IntegrityError,
     st\<lparr>files := (files st)(slug @ ''.png'' \<mapsto> qrcode_make (rb @ ''r/'' @ slug))\<rparr>)"
  using assms
  by (simp add: receive_webhook_def reaches_insert_def insert_qr_code_eq Let_def)

lemma receive_webhook_stopped:
  assumes "\<not> reaches_insert env st payload rb slug now"
  shows "\<exists>e. e \<noteq> IntegrityError \<and>
     (receive_webhook env st payload rb slug now = (Inl e, st) \<or>
      receive_webhook env st payload rb slug now =
        (Inl e, st\<lparr>files := (files st)(slug @ ''.png'' \<mapsto> qrcode_make (rb @ ''r/'' @ slug))\<rparr>))"
  using assms
  by (auto simp: receive_webhook_def reaches_insert_def Let_def)

lemma receive_webhook_Inr_iff:
  "(\<exists>resp. fst (receive_webhook env st payload rb slug now) = Inr resp) \<longleftrightarrow>
     reaches_insert env st payload rb slug now \<and> qr_codes st slug = None"
proof (cases "reaches_insert env st payload rb slug now")
  case True
  then show ?thesis
    by (cases "qr_codes st slug") (simp_all add: receive_webhook_fresh receive_webhook_duplicate)
next
  case False
  then show ?thesis using receive_webhook_stopped [OF False] by auto
qed

lemma receive_webhook_success:
  assumes "fst (receive_webhook env st payload rb slug now) = Inr resp"
  shows "qr_codes st slug = None"
    and "receive_webhook env st payload rb slug now =
    (Inr (JSONResponse [(''qr_code_url'', ''/static/'' @ slug @ ''.png''),
                        (''redirect_url'', rb @ ''r/'' @ slug)]),
     st\<lparr>files := (files st)(slug @ ''.png'' \<mapsto> qrcode_make (rb @ ''r/'' @ slug)),
        qr_codes := (qr_codes st)(slug \<mapsto>
          \<lparr>url = destination_url payload, file_path = joinpath (qr_dir st) (slug @ ''.png''),
           created_at = now\<rparr>)\<rparr>)"
proof -
  from assms have r: "reaches_insert env st payload rb slug now" and f: "qr_codes st slug = None"
    using receive_webhook_Inr_iff by blast+
  show "qr_codes st slug = None" by (rule f)
  show "receive_webhook env st payload rb slug now =
    (Inr (JSONResponse [(''qr_code_url'', ''/static/'' @ slug @ ''.png''),
                        (''redirect_url'', rb @ ''r/'' @ slug)]),
     st\<lparr>files := (files st)(slug @ ''.png'' \<mapsto> qrcode_make (rb @ ''r/'' @ slug)),
        qr_codes := (qr_codes st)(slug \<mapsto>
          \<lparr>url = destination_url payload, file_path = joinpath (qr_dir st) (slug @ ''.png''),
           created_at = now\<rparr>)\<rparr>)"
    by (rule receive_webhook_fresh [OF r f])
qed

lemma receive_webhook_failure:
  assumes "fst (receive_webhook env st payload rb slug now) = Inl e"
  shows "snd (receive_webhook env st payload rb slug now) = st \<or>
         snd (receive_webhook env st payload rb slug now) =
           st\<lparr>files := (files st)(slug @ ''.png'' \<mapsto> qrcode_make (rb @ ''r/'' @ slug))\<rparr>"
proof (cases "reaches_insert env st payload rb slug now")
  case True
  with assms show ?thesis
    by (cases "qr_codes st slug") (simp_all add: receive_webhook_fresh receive_webhook_duplicate)
next
  case False
  then show ?thesis using receive_webhook_stopped [OF False] by auto
qed

text \<open>The three states a webhook can leave.\<close>

lemma receive_webhook_snd:
  "snd (receive_webhook env st payload rb slug now) = st
   \<or> snd (receive_webhook env st payload rb slug now) =
       st\<lparr>files := (files st)(slug @ ''.png'' \<mapsto> qrcode_make (rb @ ''r/'' @ slug))\<rparr>
   \<or> (qr_codes st slug = None \<and>
       snd (receive_webhook env st payload rb slug now) =
         st\<lparr>files := (files st)(slug @ ''.png'' \<mapsto> qrcode_make (rb @ ''r/'' @ slug)),
            qr_codes := (qr_codes st)(slug \<mapsto>
              \<lparr>url = destination_url payload,
               file_path = joinpath (qr_dir st) (slug @ ''.png''), created_at = now\<rparr>)\<rparr>)"
proof (cases "fst (receive_webhook env st payload rb slug now)")
  case (Inl e)
  then show ?thesis using receive_webhook_failure by blast
next
  case (Inr resp)
  then show ?thesis using receive_webhook_success [OF Inr] by simp
qed

lemma webhook_endpoint_snd:
  "snd (webhook_endpoint env st token payload rb slug now) = st
   \<or> snd (webhook_endpoint env st token payload rb slug now) =
       snd (receive_webhook env st payload rb slug now)"
  by (cases "get_current_user st token") (simp_all add: webhook_endpoint_def)

subsection \<open>The outcomes of a scan\<close>

lemma follow_qr_known:
  assumes "qr_codes st slug = Some row"
  shows "follow_qr st slug client now =
    (Inr (RedirectResponse (url row)),
     append_scan st slug (case client of Some host \<Rightarrow> host | None \<Rightarrow> []) now)"
  using assms by (simp add: follow_qr_def select_url_def insert_qr_scan_eq)

lemma follow_qr_unknown:
  assumes "qr_codes st slug = None"
  shows "follow_qr st slug client now = (Inl (HTTPException 404 ''Unknown QR code''), st)"
  using assms by (simp add: follow_qr_def select_url_def)

lemma get_qr_code_snd: "snd (get_qr_code st filename token) = st"
  by (simp add: get_qr_code_def Let_def split: sum.splits)

lemma login_simps:
  "qr_codes (snd (login st u p t)) = qr_codes st"
  "qr_scans (snd (login st u p t)) = qr_scans st"
  "scan_seq (snd (login st u p t)) = scan_seq st"
  "files (snd (login st u p t)) = files st"
  by (simp_all add: login_def split: option.splits)

subsection \<open>What one request does to the link table\<close>

lemma handle_qr_codes_keeps:
  assumes "qr_codes st slug = Some row"
  shows "qr_codes (snd (handle st r)) slug = Some row"
proof (cases r)
  case (Login u p t)
  then show ?thesis using assms by (simp add: login_simps)
next
  case (Webhook env t payload rb s now)
  have "qr_codes (snd (receive_webhook env st payload rb s now)) slug = Some row"
    using receive_webhook_snd [of env st payload rb s now] assms by auto
  then show ?thesis
    using webhook_endpoint_snd [of env st t payload rb s now] assms Webhook by auto
next
  case (FollowQR s c now)
  then show ?thesis using assms
    by (cases "qr_codes st s") (simp_all add: follow_qr_known follow_qr_unknown append_scan_simps)
next
  case (GetQR f t)
  then show ?thesis using assms by (simp add: get_qr_code_snd)
qed

lemma run_qr_codes_keeps:
  "qr_codes st slug = Some row \<Longrightarrow> qr_codes (run st rs) slug = Some row"
  by (induction rs arbitrary: st) (simp_all add: handle_qr_codes_keeps)

lemma handle_qr_codes_absent:
  assumes "qr_codes st slug = None" and "slug \<notin> webhook_slugs [r]"
  shows "qr_codes (snd (handle st r)) slug = None"
proof (cases r)
  case (Login u p t)
  then show ?thesis using assms by (simp add: login_simps)
next
  case (Webhook env t payload rb s now)
  then have ne: "s \<noteq> slug" using assms by auto
  have "qr_codes (snd (receive_webhook env st payload rb s now)) slug = None"
    using receive_webhook_snd [of env st payload rb s now] assms ne by auto
  then show ?thesis
    using webhook_endpoint_snd [of env st t payload rb s now] assms Webhook by auto
next
  case (FollowQR s c now)
  then show ?thesis using assms
    by (cases "qr_codes st s") (simp_all add: follow_qr_known follow_qr_unknown append_scan_simps)
next
  case (GetQR f t)
  then show ?thesis using assms by (simp add: get_qr_code_snd)
qed

lemma webhook_slugs_Cons: "webhook_slugs (r # rs) = webhook_slugs [r] \<union> webhook_slugs rs"
  by (cases r) simp_all

lemma run_qr_codes_absent:
  "qr_codes st slug = None \<Longrightarrow> slug \<notin> webhook_slugs rs \<Longrightarrow> qr_codes (run st rs) slug = None"
proof (induction rs arbitrary: st)
  case Nil
  then show ?case by simp
next
  case (Cons r rs)
  from Cons.prems(2) have a: "slug \<notin> webhook_slugs [r]" and b: "slug \<notin> webhook_slugs rs"
    using webhook_slugs_Cons [of r rs] by auto
  have "qr_codes (snd (handle st r)) slug = None"
    using handle_qr_codes_absent [OF Cons.prems(1) a] .
  from Cons.IH [OF this b] show ?case by simp
qed

subsection \<open>What one request does to the scan log\<close>

lemma handle_scans:
  "(qr_scans (snd (handle st r)) = qr_scans st \<and> scan_seq (snd (handle st r)) = scan_seq st)
   \<or> (\<exists>slug ip now. snd (handle st r) = append_scan st slug ip now)"
proof (cases r)
  case (Login u p t)
  then show ?thesis by (simp add: login_simps)
next
  case (Webhook env t payload rb s now)
  have "qr_scans (snd (receive_webhook env st payload rb s now)) = qr_scans st \<and>
        scan_seq (snd (receive_webhook env st payload rb s now)) = scan_seq st"
    using receive_webhook_snd [of env st payload rb s now] by auto
  then show ?thesis
    using webhook_endpoint_snd [of env st t payload rb s now] Webhook by auto
next
  case (FollowQR s c now)
  then show ?thesis
    by (cases "qr_codes st s") (auto simp: follow_qr_known follow_qr_unknown)
next
  case (GetQR f t)
  then show ?thesis by (simp add: get_qr_code_snd)
qed

lemma handle_qr_scans_prefix: "\<exists>new. qr_scans (snd (handle st r)) = qr_scans st @ new"
  using handle_scans [of st r] by (auto simp: append_scan_simps)

lemma run_qr_scans_prefix: "\<exists>new. qr_scans (run st rs) = qr_scans st @ new"
proof (induction rs arbitrary: st)
  case Nil
  then show ?case by simp
next
  case (Cons r rs)
  obtain a where a: "qr_scans (snd (handle st r)) = qr_scans st @ a"
    using handle_qr_scans_prefix by blast
  obtain b where b: "qr_scans (run (snd (handle st r)) rs) = qr_scans (snd (handle st r)) @ b"
    using Cons.IH by blast
  from a b have "qr_scans (run st (r # rs)) = qr_scans st @ (a @ b)" by simp
  then show ?case by blast
qed

lemma append_scan_ids_ok:
  assumes "scan_ids_ok st"
  shows "scan_ids_ok (append_scan st slug ip now)"
proof -
  from assms have s: "sorted_wrt (<) (map scan_id (qr_scans st))"
    and b: "\<forall>e\<in>set (qr_scans st). scan_id e \<le> scan_seq st"
    by (simp_all add: scan_ids_ok_def list_all_iff)
  from b have lt: "\<forall>e\<in>set (qr_scans st). scan_id e < scan_seq st + 1" by auto
  from b have le: "\<forall>e\<in>set (qr_scans st). scan_id e \<le> scan_seq st + 1" by auto
  show ?thesis
    using s lt le
    by (auto simp: scan_ids_ok_def append_scan_simps sorted_wrt_append list_all_iff)
qed

lemma handle_scan_ids_ok: "scan_ids_ok st \<Longrightarrow> scan_ids_ok (snd (handle st r))"
  using handle_scans [of st r] append_scan_ids_ok
  by (auto simp: scan_ids_ok_def)

lemma run_scan_ids_ok: "scan_ids_ok st \<Longrightarrow> scan_ids_ok (run st rs)"
  by (induction rs arbitrary: st) (simp_all add: handle_scan_ids_ok)

lemma init_db_scan_ids_ok: "scan_ids_ok (init_db dir)"
  by (simp add: scan_ids_ok_def init_db_def)

lemma follow_qr_Inr_iff:
  "(\<exists>resp. fst (follow_qr st slug client now) = Inr resp) \<longleftrightarrow> qr_codes st slug \<noteq> None"
  by (cases "qr_codes st slug") (auto simp: follow_qr_known follow_qr_unknown)

lemma follow_qr_twice:
  assumes "fst (follow_qr st slug c1 t1) = Inr resp"
  shows "\<exists>resp' e1 e2.
     fst (follow_qr (snd (follow_qr st slug c1 t1)) slug c2 t2) = Inr resp' \<and>
     qr_scans (snd (follow_qr (snd (follow_qr st slug c1 t1)) slug c2 t2)) = qr_scans st @ [e1, e2] \<and>
     scan_slug e1 = slug \<and> scan_slug e2 = slug \<and> scan_id e1 < scan_id e2 \<and> e1 \<noteq> e2"
proof -
  from assms obtain row where row: "qr_codes st slug = Some row"
    using follow_qr_Inr_iff [of st slug c1 t1] by auto
  let ?ip1 = "case c1 of Some host \<Rightarrow> host | None \<Rightarrow> []"
  let ?ip2 = "case c2 of Some host \<Rightarrow> host | None \<Rightarrow> []"
  let ?st1 = "append_scan st slug ?ip1 t1"
  have one: "follow_qr st slug c1 t1 = (Inr (RedirectResponse (url row)), ?st1)"
    by (rule follow_qr_known [OF row])
  have row1: "qr_codes ?st1 slug = Some row"
    using row by (simp add: append_scan_simps)
  have two: "follow_qr ?st1 slug c2 t2 =
      (Inr (RedirectResponse (url row)), append_scan ?st1 slug ?ip2 t2)"
    by (rule follow_qr_known [OF row1])
  let ?e1 = "\<lparr>scan_id = scan_seq st + 1, scan_slug = slug, scan_ip = ?ip1, scanned_at = t1\<rparr>"
  let ?e2 = "\<lparr>scan_id = scan_seq st + 1 + 1, scan_slug = slug, scan_ip = ?ip2, scanned_at = t2\<rparr>"
  have "fst (follow_qr (snd (follow_qr st slug c1 t1)) slug c2 t2) = Inr (RedirectResponse (url row))"
    by (simp add: one two)
  moreover have "qr_scans (snd (follow_qr (snd (follow_qr st slug c1 t1)) slug c2 t2)) =
      qr_scans st @ [?e1, ?e2]"
    by (simp add: one two append_scan_simps)
  moreover have "scan_slug ?e1 = slug \<and> scan_slug ?e2 = slug \<and> scan_id ?e1 < scan_id ?e2 \<and> ?e1 \<noteq> ?e2"
    by simp
  ultimately show ?thesis by blast
qed

lemma follow_qr_appends_one:
  assumes "fst (follow_qr st slug client now) = Inr resp"
  shows "qr_scans (snd (follow_qr st slug client now)) = qr_scans st @
     [\<lparr>scan_id = scan_seq st + 1, scan_slug = slug,
       scan_ip = (case client of Some host \<Rightarrow> host | None \<Rightarrow> []), scanned_at = now\<rparr>]"
proof -
  from assms obtain row where row: "qr_codes st slug = Some row"
    using follow_qr_Inr_iff [of st slug client now] by auto
  show ?thesis by (simp add: follow_qr_known [OF row] append_scan_simps)
qed

subsection \<open>Links and their image files\<close>

lemma receive_webhook_images_present:
  assumes "images_present st"
  shows "images_present (snd (receive_webhook env st payload rb slug now))"
  using receive_webhook_snd [of env st payload rb slug now] assms
  by (auto simp: images_present_def)

lemma handle_images_present:
  assumes "images_present st"
  shows "images_present (snd (handle st r))"
proof (cases r)
  case (Login u p t)
  then show ?thesis using assms by (simp add: images_present_def login_simps)
next
  case (Webhook env t payload rb s now)
  then show ?thesis
    using assms receive_webhook_images_present [OF assms]
      webhook_endpoint_snd [of env st t payload rb s now] by auto
next
  case (FollowQR s c now)
  then show ?thesis using assms
    by (cases "qr_codes st s")
      (simp_all add: images_present_def follow_qr_known follow_qr_unknown append_scan_simps)
next
  case (GetQR f' t)
  then show ?thesis using assms by (simp add: get_qr_code_snd)
qed

lemma run_images_present: "images_present st \<Longrightarrow> images_present (run st rs)"
  by (induction rs arbitrary: st) (simp_all add: handle_images_present)

lemma receive_webhook_before_save:
  assumes "\<not> image_saved env payload rb slug"
  shows "\<exists>e. receive_webhook env st payload rb slug now = (Inl e, st)"
  using assms by (auto simp: receive_webhook_def image_saved_def Let_def)

lemma receive_webhook_after_save:
  assumes "image_saved env payload rb slug"
    and "fst (receive_webhook env st payload rb slug now) = Inl e"
  shows "snd (receive_webhook env st payload rb slug now) =
           st\<lparr>files := (files st)(slug @ ''.png'' \<mapsto> qrcode_make (rb @ ''r/'' @ slug))\<rparr>"
  using assms
  by (auto simp: receive_webhook_def image_saved_def Let_def split: if_splits sum.splits)

subsection \<open>The example states\<close>

lemmas webhook_eval =
  receive_webhook_def insert_qr_code_eq calm_def Let_def urlencode_raises_def
  destination_url_def WebhookPayload_default_def urlencode_def quote_plus_def quote_byte_def
  ALWAYS_SAFE_def joinpath_def path_str_def posixpath_join_def splitroot_def

lemma example_state_eq:
  "example_state =
     \<lparr>tokens = Map.empty,
      qr_codes = [''Zm9vYmFyMTI'' \<mapsto>
        \<lparr>url = ''https://example.com?a=1'', file_path = ''qr_codes/Zm9vYmFyMTI.png'',
         created_at = ''t0''\<rparr>],
      qr_scans = [], scan_seq = 0,
      files = [''Zm9vYmFyMTI.png'' \<mapsto> QRImage ''http://qr.test/r/Zm9vYmFyMTI''],
      qr_dir = ''qr_codes'',
      other_files = {''qr_codes.db'', ''.'', ''..''}\<rparr>"
  by (simp add: example_state_def webhook_eval init_db_def qrcode_make_def)

lemma example_run_state:
  "run (init_db ''qr_codes'') example_run =
     (append_scan example_state ''Zm9vYmFyMTI'' ''203.0.113.7'' ''t1'')
       \<lparr>tokens := [''tok'' \<mapsto> ''user@example.com'']\<rparr>"
  by (simp add: example_run_def example_state_eq login_def fake_users_db_def hashed_password_def
      init_db_def webhook_endpoint_def get_current_user_def webhook_eval qrcode_make_def
      follow_qr_def select_url_def insert_qr_scan_eq append_scan_def)

lemma example_traffic_state:
  "qr_codes (run example_state example_traffic) =
     [''Zm9vYmFyMTI'' \<mapsto>
        \<lparr>url = ''https://example.com?a=1'', file_path = ''qr_codes/Zm9vYmFyMTI.png'',
         created_at = ''t0''\<rparr>,
      ''c2Vjb25kc2x1Zw'' \<mapsto>
        \<lparr>url = ''https://other.example'', file_path = ''qr_codes/c2Vjb25kc2x1Zw.png'',
         created_at = ''t3''\<rparr>]"
  "files (run example_state example_traffic) =
     [''Zm9vYmFyMTI.png'' \<mapsto> QRImage ''http://evil.test/r/Zm9vYmFyMTI'',
      ''c2Vjb25kc2x1Zw.png'' \<mapsto> QRImage ''http://qr.test/r/c2Vjb25kc2x1Zw'',
      ''dGhpcmRzbHU.png'' \<mapsto> QRImage ''http://qr.test/r/dGhpcmRzbHU'']"
  "qr_scans (run example_state example_traffic) =
     [\<lparr>scan_id = 1, scan_slug = ''Zm9vYmFyMTI'', scan_ip = [], scanned_at = ''t1''\<rparr>]"
  "scan_seq (run example_state example_traffic) = 1"
  by (simp_all add: example_state_eq example_traffic_def follow_qr_def select_url_def
      insert_qr_scan_eq append_scan_def login_def fake_users_db_def hashed_password_def
      webhook_endpoint_def get_current_user_def webhook_eval qrcode_make_def get_qr_code_def)

lemma destination_url_example:
  "destination_url (WebhookPayload_default [(''a'', ''1''), (''b'', ''2'')]) =
     ''https://example.com?a=1&b=2''"
  by (simp add: destination_url_def WebhookPayload_default_def urlencode_def quote_plus_def
      quote_byte_def ALWAYS_SAFE_def)

lemma receive_webhook_files:
  "files (snd (receive_webhook env st payload rb slug now)) = files st \<or>
   files (snd (receive_webhook env st payload rb slug now)) =
     (files st)(slug @ ''.png'' \<mapsto> qrcode_make (rb @ ''r/'' @ slug))"
  using receive_webhook_snd [of env st payload rb slug now] by auto

section \<open>The claims\<close>

text \<open>
  Claim C1. When \<open>receive_webhook\<close> succeeds for a slug, following that slug in the
  resulting state, from any client and at any time, redirects to exactly the destination
  URL that the webhook built and stored; the \<open>SELECT\<close> of the handler returns that
  string unchanged.
\<close>

theorem resolve_fresh_slug:
  assumes "fst (receive_webhook env st payload rb slug now) = Inr resp"
  shows "fst (follow_qr (snd (receive_webhook env st payload rb slug now)) slug client now') =
           Inr (RedirectResponse (destination_url payload))
         \<and> select_url (snd (receive_webhook env st payload rb slug now)) slug =
           Some (destination_url payload)"
proof -
  let ?st' = "snd (receive_webhook env st payload rb slug now)"
  let ?row = "\<lparr>url = destination_url payload,
               file_path = joinpath (qr_dir st) (slug @ ''.png''), created_at = now\<rparr>"
  have stored: "qr_codes ?st' slug = Some ?row"
    by (simp add: receive_webhook_success(2) [OF assms])
  show ?thesis
    using follow_qr_known [OF stored] stored by (simp add: select_url_def)
qed

theorem resolve_fresh_slug_witness:
  "fst (receive_webhook calm (init_db ''qr_codes'')
          (WebhookPayload_default [(''a'', ''1''), (''b'', ''2'')]) ''http://qr.test/'' ''Zm9vYmFyMTI'' ''t0'')
     = Inr (JSONResponse [(''qr_code_url'', ''/static/Zm9vYmFyMTI.png''),
                          (''redirect_url'', ''http://qr.test/r/Zm9vYmFyMTI'')])
   \<and> fst (follow_qr (snd (receive_webhook calm (init_db ''qr_codes'')
          (WebhookPayload_default [(''a'', ''1''), (''b'', ''2'')]) ''http://qr.test/'' ''Zm9vYmFyMTI'' ''t0''))
          ''Zm9vYmFyMTI'' (Some ''203.0.113.7'') ''t1'')
     = Inr (RedirectResponse ''https://example.com?a=1&b=2'')"
proof -
  have h: "fst (receive_webhook calm (init_db ''qr_codes'')
          (WebhookPayload_default [(''a'', ''1''), (''b'', ''2'')]) ''http://qr.test/'' ''Zm9vYmFyMTI'' ''t0'')
     = Inr (JSONResponse [(''qr_code_url'', ''/static/Zm9vYmFyMTI.png''),
                          (''redirect_url'', ''http://qr.test/r/Zm9vYmFyMTI'')])"
    by (simp add: webhook_eval init_db_def)
  have d: "destination_url (WebhookPayload_default [(''a'', ''1''), (''b'', ''2'')])
             = ''https://example.com?a=1&b=2''"
    by (simp add: destination_url_def WebhookPayload_default_def urlencode_def quote_plus_def
        quote_byte_def ALWAYS_SAFE_def)
  from resolve_fresh_slug [OF h, of "Some ''203.0.113.7''" "''t1''"] h d show ?thesis by simp
qed

text \<open>
  Claim C2, as stated, fails. The handler draws one slug and runs one \<open>INSERT\<close>; there
  is no retry. When the slug is already a key of \<open>qr_codes\<close>, the \<open>IntegrityError\<close> of
  the primary key is what the request ends with: here a second webhook is given the slug
  of the link that \<open>example_state\<close> holds, in an environment where nothing else fails.
\<close>

theorem duplicate_slug_surfaced_counterexample:
  "qr_codes example_state ''Zm9vYmFyMTI'' \<noteq> None \<and>
   fst (receive_webhook calm example_state \<lparr>params = [], base_url = ''https://other.example''\<rparr>
          ''http://qr.test/'' ''Zm9vYmFyMTI'' ''t1'') = Inl IntegrityError"
  by (simp add: example_state_eq webhook_eval)

text \<open>
  Claim C2, amended. The webhook makes at most one insertion, with the one slug it
  drew. If the slug is already in \<open>qr_codes\<close> the request fails, and when it gets as
  far as the insertion it ends with the \<open>IntegrityError\<close>. Whenever the request fails,
  both tables are as before. When it succeeds, the slug was not in the table and the
  table gains exactly the row of that slug.
\<close>

theorem single_insert_attempt:
  "(qr_codes st slug \<noteq> None \<longrightarrow>
      (\<exists>e. fst (receive_webhook env st payload rb slug now) = Inl e) \<and>
      (reaches_insert env st payload rb slug now \<longrightarrow>
         fst (receive_webhook env st payload rb slug now) = Inl IntegrityError))
   \<and> (fst (receive_webhook env st payload rb slug now) = Inl e \<longrightarrow>
      qr_codes (snd (receive_webhook env st payload rb slug now)) = qr_codes st \<and>
      qr_scans (snd (receive_webhook env st payload rb slug now)) = qr_scans st \<and>
      scan_seq (snd (receive_webhook env st payload rb slug now)) = scan_seq st)
   \<and> (fst (receive_webhook env st payload rb slug now) = Inr resp \<longrightarrow>
      qr_codes st slug = None \<and>
      qr_codes (snd (receive_webhook env st payload rb slug now)) =
        (qr_codes st)(slug \<mapsto> \<lparr>url = destination_url payload,
           file_path = joinpath (qr_dir st) (slug @ ''.png''), created_at = now\<rparr>))"
proof -
  have a: "\<exists>e. fst (receive_webhook env st payload rb slug now) = Inl e"
    if "qr_codes st slug \<noteq> None"
  proof (cases "fst (receive_webhook env st payload rb slug now)")
    case (Inl e)
    then show ?thesis by blast
  next
    case (Inr r)
    from receive_webhook_success(1) [OF Inr] that show ?thesis by simp
  qed
  have b: "fst (receive_webhook env st payload rb slug now) = Inl IntegrityError"
    if "qr_codes st slug \<noteq> None" and "reaches_insert env st payload rb slug now"
  proof -
    from that(1) obtain row where "qr_codes st slug = Some row" by auto
    from receive_webhook_duplicate [OF that(2) this] show ?thesis by simp
  qed
  have c: "qr_codes (snd (receive_webhook env st payload rb slug now)) = qr_codes st \<and>
      qr_scans (snd (receive_webhook env st payload rb slug now)) = qr_scans st \<and>
      scan_seq (snd (receive_webhook env st payload rb slug now)) = scan_seq st"
    if "fst (receive_webhook env st payload rb slug now) = Inl e"
    using receive_webhook_failure [OF that] by auto
  have d: "qr_codes st slug = None \<and>
      qr_codes (snd (receive_webhook env st payload rb slug now)) =
        (qr_codes st)(slug \<mapsto> \<lparr>url = destination_url payload,
           file_path = joinpath (qr_dir st) (slug @ ''.png''), created_at = now\<rparr>)"
    if "fst (receive_webhook env st payload rb slug now) = Inr resp"
    using receive_webhook_success [OF that] by simp
  from a b c d show ?thesis by blast
qed

theorem single_insert_attempt_witness:
  "qr_codes example_state ''Zm9vYmFyMTI'' \<noteq> None
   \<and> reaches_insert calm example_state \<lparr>params = [], base_url = ''https://other.example''\<rparr>
          ''http://qr.test/'' ''Zm9vYmFyMTI'' ''t1''
   \<and> fst (receive_webhook calm example_state \<lparr>params = [], base_url = ''https://other.example''\<rparr>
          ''http://qr.test/'' ''Zm9vYmFyMTI'' ''t1'') = Inl IntegrityError
   \<and> qr_codes (snd (receive_webhook calm example_state
          \<lparr>params = [], base_url = ''https://other.example''\<rparr>
          ''http://qr.test/'' ''Zm9vYmFyMTI'' ''t1'')) = qr_codes example_state
   \<and> fst (receive_webhook calm example_state \<lparr>params = [], base_url = ''https://other.example''\<rparr>
          ''http://qr.test/'' ''c2Vjb25kc2x1Zw'' ''t1'') =
        Inr (JSONResponse [(''qr_code_url'', ''/static/c2Vjb25kc2x1Zw.png''),
                           (''redirect_url'', ''http://qr.test/r/c2Vjb25kc2x1Zw'')])
   \<and> qr_codes (snd (receive_webhook calm example_state
          \<lparr>params = [], base_url = ''https://other.example''\<rparr>
          ''http://qr.test/'' ''c2Vjb25kc2x1Zw'' ''t1'')) ''c2Vjb25kc2x1Zw'' =
        Some \<lparr>url = ''https://other.example'', file_path = ''qr_codes/c2Vjb25kc2x1Zw.png'',
              created_at = ''t1''\<rparr>"
proof -
  let ?p = "\<lparr>params = [], base_url = ''https://other.example''\<rparr>"
  have h: "qr_codes example_state ''Zm9vYmFyMTI'' \<noteq> None"
    by (simp add: example_state_eq)
  have r: "reaches_insert calm example_state ?p ''http://qr.test/'' ''Zm9vYmFyMTI'' ''t1''"
    by (simp add: reaches_insert_def example_state_eq webhook_eval)
  have s: "fst (receive_webhook calm example_state ?p ''http://qr.test/'' ''c2Vjb25kc2x1Zw'' ''t1'') =
        Inr (JSONResponse [(''qr_code_url'', ''/static/c2Vjb25kc2x1Zw.png''),
                           (''redirect_url'', ''http://qr.test/r/c2Vjb25kc2x1Zw'')])"
    by (simp add: example_state_eq webhook_eval)
  have q: "qr_dir example_state = ''qr_codes''"
    "destination_url ?p = ''https://other.example''"
    "joinpath ''qr_codes'' ''c2Vjb25kc2x1Zw.png'' = ''qr_codes/c2Vjb25kc2x1Zw.png''"
    by (simp_all add: example_state_eq webhook_eval)
  note t1 = single_insert_attempt [where st = example_state and slug = "''Zm9vYmFyMTI''"
      and payload = ?p and rb = "''http://qr.test/''" and now = "''t1''" and env = calm
      and e = IntegrityError
      and resp = "JSONResponse [(''qr_code_url'', ''/static/c2Vjb25kc2x1Zw.png''),
                           (''redirect_url'', ''http://qr.test/r/c2Vjb25kc2x1Zw'')]"]
  note t2 = single_insert_attempt [where st = example_state and slug = "''c2Vjb25kc2x1Zw''"
      and payload = ?p and rb = "''http://qr.test/''" and now = "''t1''" and env = calm
      and e = IntegrityError
      and resp = "JSONResponse [(''qr_code_url'', ''/static/c2Vjb25kc2x1Zw.png''),
                           (''redirect_url'', ''http://qr.test/r/c2Vjb25kc2x1Zw'')]"]
  have a: "fst (receive_webhook calm example_state ?p ''http://qr.test/'' ''Zm9vYmFyMTI'' ''t1'')
      = Inl IntegrityError"
    using t1 h r by blast
  have b: "qr_codes (snd (receive_webhook calm example_state ?p ''http://qr.test/''
      ''Zm9vYmFyMTI'' ''t1'')) = qr_codes example_state"
    using t1 a by blast
  have c: "qr_codes (snd (receive_webhook calm example_state ?p ''http://qr.test/''
      ''c2Vjb25kc2x1Zw'' ''t1'')) ''c2Vjb25kc2x1Zw'' =
        Some \<lparr>url = ''https://other.example'', file_path = ''qr_codes/c2Vjb25kc2x1Zw.png'',
              created_at = ''t1''\<rparr>"
    using t2 s q by simp
  from h r a b s c show ?thesis by (simp only: simp_thms)
qed

text \<open>
  Claim C3. Following a slug that has no row in \<open>qr_codes\<close> raises the 404
  \<open>Unknown QR code\<close> and leaves the whole state as it was: no row is added to
  \<open>qr_codes\<close> or to \<open>qr_scans\<close>. After any run from the initial state, this is the
  case of every slug that no webhook request of the run was given.
\<close>

theorem resolve_unknown_slug:
  "(qr_codes st slug = None \<longrightarrow>
      follow_qr st slug client now = (Inl (HTTPException 404 ''Unknown QR code''), st))
   \<and> (slug \<notin> webhook_slugs rs \<longrightarrow>
      follow_qr (run (init_db dir) rs) slug client now =
        (Inl (HTTPException 404 ''Unknown QR code''), run (init_db dir) rs))"
proof -
  have "qr_codes (init_db dir) slug = None" by (simp add: init_db_def)
  then have "slug \<notin> webhook_slugs rs \<Longrightarrow> qr_codes (run (init_db dir) rs) slug = None"
    by (rule run_qr_codes_absent)
  then show ?thesis using follow_qr_unknown by blast
qed

theorem resolve_unknown_slug_witness:
  "qr_codes (run (init_db ''qr_codes'') example_run) ''bm90aXNzdWVk'' = None
   \<and> ''bm90aXNzdWVk'' \<notin> webhook_slugs example_run
   \<and> follow_qr (run (init_db ''qr_codes'') example_run) ''bm90aXNzdWVk'' None ''t2'' =
        (Inl (HTTPException 404 ''Unknown QR code''), run (init_db ''qr_codes'') example_run)
   \<and> length (qr_scans (snd (follow_qr (run (init_db ''qr_codes'') example_run) ''bm90aXNzdWVk'' None ''t2''))) = 1"
proof -
  have a: "''bm90aXNzdWVk'' \<notin> webhook_slugs example_run"
    by (simp add: example_run_def)
  have r: "qr_scans (run (init_db ''qr_codes'') example_run) =
      [\<lparr>scan_id = 1, scan_slug = ''Zm9vYmFyMTI'', scan_ip = ''203.0.113.7'', scanned_at = ''t1''\<rparr>]"
    by (simp add: example_run_state append_scan_def example_state_eq)
  have b: "qr_codes (run (init_db ''qr_codes'') example_run) ''bm90aXNzdWVk'' = None"
    by (simp add: example_run_state append_scan_def example_state_eq)
  from resolve_unknown_slug [of "run (init_db ''qr_codes'') example_run" "''bm90aXNzdWVk''" None "''t2''" example_run "''qr_codes''"]
    a b r show ?thesis by simp
qed

text \<open>
  Claim C4. With no parameters the destination URL is the base URL unchanged. Otherwise
  it is the base URL, a question mark and the encoded parameters, in which every byte is
  an unreserved character, \<open>+\<close>, \<open>%\<close>, \<open>=\<close> or \<open>&\<close>; a key or value is encoded
  with unreserved characters, \<open>+\<close> and \<open>%\<close> only, and one made of unreserved
  characters stays as it is; two different keys or values never get the same encoding.
  A successful webhook stores this URL for the slug. The example of the specification
  gives \<open>https://example.com?a=1&b=2\<close>.
\<close>

theorem destination_url_query:
  "(params payload = [] \<longrightarrow> destination_url payload = base_url payload)
   \<and> (params payload \<noteq> [] \<longrightarrow>
        destination_url payload = base_url payload @ ''?'' @ urlencode (params payload))
   \<and> set (urlencode query) \<subseteq>
        set ALWAYS_SAFE \<union> {CHR ''+'', CHR ''%'', CHR ''='', CHR ''&''}
   \<and> set (quote_plus s) \<subseteq> set ALWAYS_SAFE \<union> {CHR ''+'', CHR ''%''}
   \<and> (set s \<subseteq> set ALWAYS_SAFE \<longrightarrow> quote_plus s = s)
   \<and> (quote_plus s = quote_plus s' \<longrightarrow> s = s')
   \<and> (fst (receive_webhook env st payload rb slug now) = Inr resp \<longrightarrow>
        select_url (snd (receive_webhook env st payload rb slug now)) slug =
          Some (destination_url payload))
   \<and> destination_url (WebhookPayload_default [(''a'', ''1''), (''b'', ''2'')]) =
        ''https://example.com?a=1&b=2''"
proof -
  have stored: "select_url (snd (receive_webhook env st payload rb slug now)) slug =
          Some (destination_url payload)"
    if h: "fst (receive_webhook env st payload rb slug now) = Inr resp"
    by (simp add: receive_webhook_success(2) [OF h] select_url_def)
  have "params payload = [] \<longrightarrow> destination_url payload = base_url payload"
    by (simp add: destination_url_def)
  moreover have "params payload \<noteq> [] \<longrightarrow>
        destination_url payload = base_url payload @ ''?'' @ urlencode (params payload)"
    by (simp add: destination_url_def)
  moreover note urlencode_chars [of query]
  moreover note quote_plus_chars [of s]
  moreover have "set s \<subseteq> set ALWAYS_SAFE \<longrightarrow> quote_plus s = s"
    using quote_plus_safe by blast
  moreover have "quote_plus s = quote_plus s' \<longrightarrow> s = s'"
    using quote_plus_inj by blast
  moreover note destination_url_example
  ultimately show ?thesis using stored by blast
qed

theorem destination_url_query_witness:
  "destination_url \<lparr>params = [], base_url = ''https://example.com/landing''\<rparr> =
     ''https://example.com/landing''
   \<and> destination_url \<lparr>params = [(''q'', ''a b&c''), (''x y'', ''1/2'')],
                       base_url = ''https://example.com/landing''\<rparr> =
     ''https://example.com/landing?q=a+b%26c&x+y=1%2F2''
   \<and> quote_plus ''abc-123'' = ''abc-123''
   \<and> quote_plus ''a b'' \<noteq> quote_plus ''a+b''
   \<and> select_url (snd (receive_webhook calm (init_db ''qr_codes'')
        \<lparr>params = [(''q'', ''a b&c''), (''x y'', ''1/2'')], base_url = ''https://example.com/landing''\<rparr>
        ''http://qr.test/'' ''Zm9vYmFyMTI'' ''t0'')) ''Zm9vYmFyMTI'' =
     Some ''https://example.com/landing?q=a+b%26c&x+y=1%2F2''"
proof -
  let ?p = "\<lparr>params = [(''q'', ''a b&c''), (''x y'', ''1/2'')],
             base_url = ''https://example.com/landing''\<rparr>"
  let ?e = "\<lparr>params = [], base_url = ''https://example.com/landing''\<rparr>"
  let ?ok = "JSONResponse [(''qr_code_url'', ''/static/Zm9vYmFyMTI.png''),
                          (''redirect_url'', ''http://qr.test/r/Zm9vYmFyMTI'')]"
  have enc: "urlencode [(''q'', ''a b&c''), (''x y'', ''1/2'')] = ''q=a+b%26c&x+y=1%2F2''"
    by (simp add: urlencode_def quote_plus_def quote_byte_def ALWAYS_SAFE_def hex_digit_def)
  have safe: "set ''abc-123'' \<subseteq> set ALWAYS_SAFE"
    by (simp add: ALWAYS_SAFE_def)
  have i: "fst (receive_webhook calm (init_db ''qr_codes'') ?p ''http://qr.test/''
      ''Zm9vYmFyMTI'' ''t0'') = Inr ?ok"
    by (simp add: webhook_eval init_db_def hex_digit_def)
  have ne: "''a b'' \<noteq> ''a+b''" by simp
  note t1 = destination_url_query [where payload = ?e and s = "''abc-123''" and s' = "''abc-123''"
      and query = "[]" and st = "init_db ''qr_codes''" and rb = "''http://qr.test/''"
      and slug = "''Zm9vYmFyMTI''" and now = "''t0''" and resp = ?ok and env = calm]
  note t2 = destination_url_query [where payload = ?p and s = "''a b''" and s' = "''a+b''"
      and query = "[]" and st = "init_db ''qr_codes''" and rb = "''http://qr.test/''"
      and slug = "''Zm9vYmFyMTI''" and now = "''t0''" and resp = ?ok and env = calm]
  have a: "destination_url ?e = ''https://example.com/landing''"
    using t1 by simp
  have b: "destination_url ?p = ''https://example.com/landing?q=a+b%26c&x+y=1%2F2''"
    using t2 enc by simp
  have c: "quote_plus ''abc-123'' = ''abc-123''"
    using t1 safe by blast
  have d: "quote_plus ''a b'' \<noteq> quote_plus ''a+b''"
    using t2 ne by blast
  have e: "select_url (snd (receive_webhook calm (init_db ''qr_codes'') ?p
        ''http://qr.test/'' ''Zm9vYmFyMTI'' ''t0'')) ''Zm9vYmFyMTI'' = Some (destination_url ?p)"
    using t2 i by blast
  from a b c d e show ?thesis by (simp only: simp_thms)
qed

text \<open>
  Claim C5. A successful \<open>follow_qr\<close> appends exactly one row to \<open>qr_scans\<close>, for the
  slug followed. Two successive scans of one slug, from any clients, append two
  different rows for that slug, the second with the larger id. Whatever requests are
  served, the rows already in the table stay as they are at the front of the table, and
  in every state reached from the initial one the ids increase strictly along the
  table.
\<close>

theorem scan_log_append_only:
  "(fst (follow_qr st slug client now) = Inr resp \<longrightarrow>
      qr_scans (snd (follow_qr st slug client now)) = qr_scans st @
        [\<lparr>scan_id = scan_seq st + 1, scan_slug = slug,
          scan_ip = (case client of Some host \<Rightarrow> host | None \<Rightarrow> []), scanned_at = now\<rparr>])
   \<and> (fst (follow_qr st slug c1 t1) = Inr resp1 \<longrightarrow>
      (\<exists>resp2 e1 e2.
         fst (follow_qr (snd (follow_qr st slug c1 t1)) slug c2 t2) = Inr resp2 \<and>
         qr_scans (snd (follow_qr (snd (follow_qr st slug c1 t1)) slug c2 t2)) =
           qr_scans st @ [e1, e2] \<and>
         scan_slug e1 = slug \<and> scan_slug e2 = slug \<and> scan_id e1 < scan_id e2 \<and> e1 \<noteq> e2))
   \<and> (\<exists>new. qr_scans (run st rs) = qr_scans st @ new)
   \<and> sorted_wrt (<) (map scan_id (qr_scans (run (init_db dir) rs)))"
proof -
  have "scan_ids_ok (run (init_db dir) rs)"
    using init_db_scan_ids_ok by (rule run_scan_ids_ok)
  then have "sorted_wrt (<) (map scan_id (qr_scans (run (init_db dir) rs)))"
    by (simp add: scan_ids_ok_def)
  then show ?thesis
    using follow_qr_appends_one follow_qr_twice run_qr_scans_prefix by blast
qed

theorem scan_log_append_only_witness:
  "fst (follow_qr example_state ''Zm9vYmFyMTI'' (Some ''203.0.113.7'') ''t1'') =
     Inr (RedirectResponse ''https://example.com?a=1'')
   \<and> qr_scans (snd (follow_qr example_state ''Zm9vYmFyMTI'' (Some ''203.0.113.7'') ''t1'')) =
     [\<lparr>scan_id = 1, scan_slug = ''Zm9vYmFyMTI'', scan_ip = ''203.0.113.7'', scanned_at = ''t1''\<rparr>]
   \<and> (\<exists>resp2 e1 e2.
         fst (follow_qr (snd (follow_qr example_state ''Zm9vYmFyMTI'' (Some ''203.0.113.7'') ''t1''))
                ''Zm9vYmFyMTI'' (Some ''198.51.100.9'') ''t2'') = Inr resp2 \<and>
         qr_scans (snd (follow_qr (snd (follow_qr example_state ''Zm9vYmFyMTI'' (Some ''203.0.113.7'') ''t1''))
                ''Zm9vYmFyMTI'' (Some ''198.51.100.9'') ''t2'')) = [e1, e2] \<and>
         scan_slug e1 = ''Zm9vYmFyMTI'' \<and> scan_slug e2 = ''Zm9vYmFyMTI'' \<and>
         scan_id e1 < scan_id e2 \<and> e1 \<noteq> e2)"
proof -
  have h: "fst (follow_qr example_state ''Zm9vYmFyMTI'' (Some ''203.0.113.7'') ''t1'') =
     Inr (RedirectResponse ''https://example.com?a=1'')"
    by (simp add: example_state_eq follow_qr_def select_url_def insert_qr_scan_eq)
  have e: "qr_scans example_state = []" "scan_seq example_state = 0"
    by (simp_all add: example_state_eq)
  from scan_log_append_only [of example_state "''Zm9vYmFyMTI''" "Some ''203.0.113.7''" "''t1''"
      "RedirectResponse ''https://example.com?a=1''" "Some ''203.0.113.7''" "''t1''"
      "RedirectResponse ''https://example.com?a=1''" "Some ''198.51.100.9''" "''t2''" "[]" "''qr_codes''"]
    h e show ?thesis by simp
qed

text \<open>
  Claim C6. A row of \<open>qr_codes\<close> never changes: whatever requests are served after
  it exists (log-ins, webhooks with the same or another slug, failing or not, scans,
  downloads), the slug still maps to the same row, and the look-up returns the same URL.
  For a link just issued that URL is the destination URL the webhook built.
\<close>

theorem link_record_immutable:
  "(qr_codes st slug = Some row \<longrightarrow>
      qr_codes (run st rs) slug = Some row \<and> select_url (run st rs) slug = Some (url row))
   \<and> (fst (receive_webhook env st payload rb slug now) = Inr resp \<longrightarrow>
      select_url (run (snd (receive_webhook env st payload rb slug now)) rs) slug =
        Some (destination_url payload))"
proof -
  have a: "qr_codes (run st rs) slug = Some row \<and> select_url (run st rs) slug = Some (url row)"
    if "qr_codes st slug = Some row"
    using run_qr_codes_keeps [OF that, of rs] by (simp add: select_url_def)
  have b: "select_url (run (snd (receive_webhook env st payload rb slug now)) rs) slug =
        Some (destination_url payload)"
    if h: "fst (receive_webhook env st payload rb slug now) = Inr resp"
  proof -
    have "qr_codes (snd (receive_webhook env st payload rb slug now)) slug =
        Some \<lparr>url = destination_url payload,
              file_path = joinpath (qr_dir st) (slug @ ''.png''), created_at = now\<rparr>"
      by (simp add: receive_webhook_success(2) [OF h])
    from run_qr_codes_keeps [OF this, of rs] show ?thesis by (simp add: select_url_def)
  qed
  from a b show ?thesis by blast
qed

theorem link_record_immutable_witness:
  "select_url example_state ''Zm9vYmFyMTI'' = Some ''https://example.com?a=1''
   \<and> select_url (run example_state example_traffic) ''Zm9vYmFyMTI'' = Some ''https://example.com?a=1''
   \<and> fst (receive_webhook calm (init_db ''qr_codes'') (WebhookPayload_default [(''a'', ''1'')])
            ''http://qr.test/'' ''Zm9vYmFyMTI'' ''t0'') =
        Inr (JSONResponse [(''qr_code_url'', ''/static/Zm9vYmFyMTI.png''),
                           (''redirect_url'', ''http://qr.test/r/Zm9vYmFyMTI'')])
   \<and> qr_codes (run example_state example_traffic) ''c2Vjb25kc2x1Zw'' \<noteq> None"
proof -
  let ?row = "\<lparr>url = ''https://example.com?a=1'', file_path = ''qr_codes/Zm9vYmFyMTI.png'',
         created_at = ''t0''\<rparr>"
  have h: "qr_codes example_state ''Zm9vYmFyMTI'' = Some ?row"
    by (simp add: example_state_eq)
  have i: "fst (receive_webhook calm (init_db ''qr_codes'') (WebhookPayload_default [(''a'', ''1'')])
            ''http://qr.test/'' ''Zm9vYmFyMTI'' ''t0'') =
        Inr (JSONResponse [(''qr_code_url'', ''/static/Zm9vYmFyMTI.png''),
                           (''redirect_url'', ''http://qr.test/r/Zm9vYmFyMTI'')])"
    by (simp add: webhook_eval init_db_def)
  have j: "qr_codes (run example_state example_traffic) ''c2Vjb25kc2x1Zw'' \<noteq> None"
    by (simp add: example_traffic_state)
  from link_record_immutable [where st = example_state and slug = "''Zm9vYmFyMTI''"
      and row = ?row and rs = example_traffic]
    link_record_immutable [where st = "init_db ''qr_codes''" and slug = "''Zm9vYmFyMTI''"
      and payload = "WebhookPayload_default [(''a'', ''1'')]" and rb = "''http://qr.test/''"
      and now = "''t0''" and rs = example_traffic and env = calm]
    h i j show ?thesis by (simp add: select_url_def)
qed



text \<open>
  Claim C8, as stated, fails. The handler saves the image before it inserts the row and
  does not remove it when the insertion raises. First, a webhook that is given the slug
  of the link in \<open>example_state\<close>, on a request with another base URL, fails with the
  \<open>IntegrityError\<close>, and the image file of that link has been replaced. Second, a
  webhook with a new slug, at a moment when the database cannot be written, fails with
  the \<open>OperationalError\<close> and leaves an image file for a slug that has no link.
\<close>

theorem failed_issue_side_effect_counterexample:
  "fst (receive_webhook calm example_state \<lparr>params = [], base_url = ''https://other.example''\<rparr>
          ''http://evil.test/'' ''Zm9vYmFyMTI'' ''t1'') = Inl IntegrityError
   \<and> files example_state ''Zm9vYmFyMTI.png'' = Some (QRImage ''http://qr.test/r/Zm9vYmFyMTI'')
   \<and> files (snd (receive_webhook calm example_state
          \<lparr>params = [], base_url = ''https://other.example''\<rparr>
          ''http://evil.test/'' ''Zm9vYmFyMTI'' ''t1'')) ''Zm9vYmFyMTI.png'' =
       Some (QRImage ''http://evil.test/r/Zm9vYmFyMTI'')
   \<and> fst (receive_webhook (calm\<lparr>db_ok := False\<rparr>) example_state
          \<lparr>params = [], base_url = ''https://other.example''\<rparr>
          ''http://qr.test/'' ''dGhpcmRzbHU'' ''t2'') = Inl OperationalError
   \<and> files example_state ''dGhpcmRzbHU.png'' = None
   \<and> files (snd (receive_webhook (calm\<lparr>db_ok := False\<rparr>) example_state
          \<lparr>params = [], base_url = ''https://other.example''\<rparr>
          ''http://qr.test/'' ''dGhpcmRzbHU'' ''t2'')) ''dGhpcmRzbHU.png'' =
       Some (QRImage ''http://qr.test/r/dGhpcmRzbHU'')
   \<and> qr_codes (snd (receive_webhook (calm\<lparr>db_ok := False\<rparr>) example_state
          \<lparr>params = [], base_url = ''https://other.example''\<rparr>
          ''http://qr.test/'' ''dGhpcmRzbHU'' ''t2'')) ''dGhpcmRzbHU'' = None"
  by (simp add: example_state_eq webhook_eval qrcode_make_def)

text \<open>
  Claim C8, amended. A webhook that fails leaves both tables and the tokens as they
  were. If it failed before the image was saved (parameters that cannot be encoded, a
  text that does not fit a QR code, a file that cannot be written) the whole state is as
  before; if it failed at the insertion, the one change is the image file of the slug,
  written for the redirect URL of the failed request. A webhook that succeeds leaves the
  row of the slug and its image file together, and in every state reached from the
  initial one each link has its image file.
\<close>

theorem failed_issue_keeps_tables:
  "(fst (receive_webhook env st payload rb slug now) = Inl e \<longrightarrow>
      qr_codes (snd (receive_webhook env st payload rb slug now)) = qr_codes st \<and>
      qr_scans (snd (receive_webhook env st payload rb slug now)) = qr_scans st \<and>
      scan_seq (snd (receive_webhook env st payload rb slug now)) = scan_seq st \<and>
      tokens (snd (receive_webhook env st payload rb slug now)) = tokens st \<and>
      (if image_saved env payload rb slug
       then snd (receive_webhook env st payload rb slug now) =
              st\<lparr>files := (files st)(slug @ ''.png'' \<mapsto> qrcode_make (rb @ ''r/'' @ slug))\<rparr>
       else snd (receive_webhook env st payload rb slug now) = st))
   \<and> (fst (receive_webhook env st payload rb slug now) = Inr resp \<longrightarrow>
      qr_codes (snd (receive_webhook env st payload rb slug now)) slug \<noteq> None \<and>
      files (snd (receive_webhook env st payload rb slug now)) (slug @ ''.png'') =
        Some (qrcode_make (rb @ ''r/'' @ slug)))
   \<and> images_present (run (init_db dir) rs)"
proof -
  have "images_present (init_db dir)" by (simp add: images_present_def init_db_def)
  then have inv: "images_present (run (init_db dir) rs)" by (rule run_images_present)
  have f: "qr_codes (snd (receive_webhook env st payload rb slug now)) = qr_codes st \<and>
      qr_scans (snd (receive_webhook env st payload rb slug now)) = qr_scans st \<and>
      scan_seq (snd (receive_webhook env st payload rb slug now)) = scan_seq st \<and>
      tokens (snd (receive_webhook env st payload rb slug now)) = tokens st \<and>
      (if image_saved env payload rb slug
       then snd (receive_webhook env st payload rb slug now) =
              st\<lparr>files := (files st)(slug @ ''.png'' \<mapsto> qrcode_make (rb @ ''r/'' @ slug))\<rparr>
       else snd (receive_webhook env st payload rb slug now) = st)"
    if h: "fst (receive_webhook env st payload rb slug now) = Inl e"
  proof (cases "image_saved env payload rb slug")
    case True
    from receive_webhook_after_save [OF True h] True show ?thesis by simp
  next
    case False
    from receive_webhook_before_save [OF False, of st now] False show ?thesis by auto
  qed
  have s: "qr_codes (snd (receive_webhook env st payload rb slug now)) slug \<noteq> None \<and>
      files (snd (receive_webhook env st payload rb slug now)) (slug @ ''.png'') =
        Some (qrcode_make (rb @ ''r/'' @ slug))"
    if h: "fst (receive_webhook env st payload rb slug now) = Inr resp"
    by (simp add: receive_webhook_success(2) [OF h])
  from f s inv show ?thesis by blast
qed

theorem failed_issue_keeps_tables_witness:
  "fst (receive_webhook calm example_state \<lparr>params = [], base_url = ''https://other.example''\<rparr>
          ''http://evil.test/'' ''Zm9vYmFyMTI'' ''t1'') = Inl IntegrityError
   \<and> image_saved calm \<lparr>params = [], base_url = ''https://other.example''\<rparr>
          ''http://evil.test/'' ''Zm9vYmFyMTI''
   \<and> snd (receive_webhook calm example_state \<lparr>params = [], base_url = ''https://other.example''\<rparr>
          ''http://evil.test/'' ''Zm9vYmFyMTI'' ''t1'') =
       example_state\<lparr>files := [''Zm9vYmFyMTI.png'' \<mapsto> QRImage ''http://evil.test/r/Zm9vYmFyMTI'']\<rparr>
   \<and> fst (receive_webhook (calm\<lparr>save_ok := False\<rparr>) example_state
          \<lparr>params = [], base_url = ''https://other.example''\<rparr>
          ''http://qr.test/'' ''dGhpcmRzbHU'' ''t2'') = Inl OSError
   \<and> snd (receive_webhook (calm\<lparr>save_ok := False\<rparr>) example_state
          \<lparr>params = [], base_url = ''https://other.example''\<rparr>
          ''http://qr.test/'' ''dGhpcmRzbHU'' ''t2'') = example_state
   \<and> fst (receive_webhook calm example_state \<lparr>params = [], base_url = ''https://other.example''\<rparr>
          ''http://qr.test/'' ''c2Vjb25kc2x1Zw'' ''t1'') =
        Inr (JSONResponse [(''qr_code_url'', ''/static/c2Vjb25kc2x1Zw.png''),
                           (''redirect_url'', ''http://qr.test/r/c2Vjb25kc2x1Zw'')])
   \<and> files (snd (receive_webhook calm example_state \<lparr>params = [], base_url = ''https://other.example''\<rparr>
          ''http://qr.test/'' ''c2Vjb25kc2x1Zw'' ''t1'')) ''c2Vjb25kc2x1Zw.png'' =
       Some (QRImage ''http://qr.test/r/c2Vjb25kc2x1Zw'')
   \<and> images_present (run (init_db ''qr_codes'') example_run)"
proof -
  let ?p = "\<lparr>params = [], base_url = ''https://other.example''\<rparr>"
  let ?ok = "JSONResponse [(''qr_code_url'', ''/static/c2Vjb25kc2x1Zw.png''),
                           (''redirect_url'', ''http://qr.test/r/c2Vjb25kc2x1Zw'')]"
  have a: "fst (receive_webhook calm example_state ?p ''http://evil.test/'' ''Zm9vYmFyMTI'' ''t1'')
      = Inl IntegrityError"
    by (simp add: example_state_eq webhook_eval)
  have a': "image_saved calm ?p ''http://evil.test/'' ''Zm9vYmFyMTI''"
    by (simp add: image_saved_def calm_def)
  have b: "fst (receive_webhook (calm\<lparr>save_ok := False\<rparr>) example_state ?p ''http://qr.test/''
      ''dGhpcmRzbHU'' ''t2'') = Inl OSError"
    by (simp add: example_state_eq webhook_eval)
  have b': "\<not> image_saved (calm\<lparr>save_ok := False\<rparr>) ?p ''http://qr.test/'' ''dGhpcmRzbHU''"
    by (simp add: image_saved_def calm_def)
  have c: "fst (receive_webhook calm example_state ?p ''http://qr.test/'' ''c2Vjb25kc2x1Zw'' ''t1'')
      = Inr ?ok"
    by (simp add: example_state_eq webhook_eval)
  have f: "(files example_state)(''Zm9vYmFyMTI.png'' \<mapsto> QRImage ''http://evil.test/r/Zm9vYmFyMTI'')
      = [''Zm9vYmFyMTI.png'' \<mapsto> QRImage ''http://evil.test/r/Zm9vYmFyMTI'']"
    by (simp add: example_state_eq)
  note t1 = failed_issue_keeps_tables [where st = example_state and slug = "''Zm9vYmFyMTI''"
      and payload = ?p and rb = "''http://evil.test/''" and now = "''t1''" and env = calm
      and e = IntegrityError and resp = ?ok and dir = "''qr_codes''" and rs = example_run]
  note t2 = failed_issue_keeps_tables [where st = example_state and slug = "''dGhpcmRzbHU''"
      and payload = ?p and rb = "''http://qr.test/''" and now = "''t2''"
      and env = "calm\<lparr>save_ok := False\<rparr>"
      and e = OSError and resp = ?ok and dir = "''qr_codes''" and rs = example_run]
  note t3 = failed_issue_keeps_tables [where st = example_state and slug = "''c2Vjb25kc2x1Zw''"
      and payload = ?p and rb = "''http://qr.test/''" and now = "''t1''" and env = calm
      and e = IntegrityError and resp = ?ok and dir = "''qr_codes''" and rs = example_run]
  have r1: "snd (receive_webhook calm example_state ?p ''http://evil.test/'' ''Zm9vYmFyMTI'' ''t1'') =
       example_state\<lparr>files := [''Zm9vYmFyMTI.png'' \<mapsto> QRImage ''http://evil.test/r/Zm9vYmFyMTI'']\<rparr>"
    using t1 a a' f by (simp add: qrcode_make_def)
  have r2: "snd (receive_webhook (calm\<lparr>save_ok := False\<rparr>) example_state ?p ''http://qr.test/''
      ''dGhpcmRzbHU'' ''t2'') = example_state"
    using t2 b b' by simp
  have r3: "files (snd (receive_webhook calm example_state ?p ''http://qr.test/''
      ''c2Vjb25kc2x1Zw'' ''t1'')) ''c2Vjb25kc2x1Zw.png'' =
       Some (QRImage ''http://qr.test/r/c2Vjb25kc2x1Zw'')"
    using t3 c by (simp add: qrcode_make_def)
  have r4: "images_present (run (init_db ''qr_codes'') example_run)"
    using t1 by blast
  from a a' r1 b r2 c r3 r4 show ?thesis by (simp only: simp_thms)
qed

text \<open>
  Claim C9. For a link that has been issued, the image saved for its slug encodes the
  redirect URL, the base URL of the request followed by \<open>r/\<close> and the slug. The base
  URL of a request ends with a slash, so with the resolver's base written without it the
  text is that base, \<open>/r/\<close> and the slug. It is the URL returned in the response.
  Whether the webhook succeeds or not, the only file it can write is that image under
  that name, and two successful webhooks with the same base URL and slug write the same
  image whatever their payloads: the destination has no part in the image.
\<close>

theorem image_encodes_redirect_url:
  "(fst (receive_webhook env st payload rb slug now) = Inr resp \<longrightarrow>
      files (snd (receive_webhook env st payload rb slug now)) (slug @ ''.png'') =
        Some (qrcode_make (rb @ ''r/'' @ slug)))
   \<and> (fst (receive_webhook env st payload rb slug now) = Inr resp \<longrightarrow>
        rb = resolver @ ''/'' \<longrightarrow>
        map_option image_payload
          (files (snd (receive_webhook env st payload rb slug now)) (slug @ ''.png''))
          = Some (resolver @ ''/r/'' @ slug))
   \<and> (fst (receive_webhook env st payload rb slug now) = Inr resp \<longrightarrow>
        resp = JSONResponse [(''qr_code_url'', ''/static/'' @ slug @ ''.png''),
                             (''redirect_url'', rb @ ''r/'' @ slug)])
   \<and> (files (snd (receive_webhook env st payload rb slug now)) = files st \<or>
       files (snd (receive_webhook env st payload rb slug now)) =
         (files st)(slug @ ''.png'' \<mapsto> qrcode_make (rb @ ''r/'' @ slug)))
   \<and> (fst (receive_webhook env st payload rb slug now) = Inr resp \<longrightarrow>
        fst (receive_webhook env' st payload' rb slug now') = Inr resp' \<longrightarrow>
        files (snd (receive_webhook env st payload rb slug now)) (slug @ ''.png'') =
        files (snd (receive_webhook env' st payload' rb slug now')) (slug @ ''.png''))"
proof -
  let ?st' = "snd (receive_webhook env st payload rb slug now)"
  have img: "files (snd (receive_webhook v st p rb slug t)) (slug @ ''.png'') =
      Some (qrcode_make (rb @ ''r/'' @ slug))"
    if "fst (receive_webhook v st p rb slug t) = Inr r" for v p t r
    by (simp add: receive_webhook_success(2) [OF that])
  have b: "map_option image_payload (files ?st' (slug @ ''.png'')) = Some (resolver @ ''/r/'' @ slug)"
    if h: "fst (receive_webhook env st payload rb slug now) = Inr resp" and "rb = resolver @ ''/''"
  proof -
    have "map_option image_payload (files ?st' (slug @ ''.png'')) = Some (rb @ ''r/'' @ slug)"
      by (simp add: img [OF h] qrcode_make_def)
    moreover have "rb @ ''r/'' @ slug = resolver @ ''/r/'' @ slug"
      by (simp add: that(2))
    ultimately show ?thesis by (rule trans [OF _ arg_cong [of _ _ Some]])
  qed
  have c: "resp = JSONResponse [(''qr_code_url'', ''/static/'' @ slug @ ''.png''),
                             (''redirect_url'', rb @ ''r/'' @ slug)]"
    if h: "fst (receive_webhook env st payload rb slug now) = Inr resp"
    using h by (simp add: receive_webhook_success(2) [OF h])
  have d: "files ?st' (slug @ ''.png'') =
        files (snd (receive_webhook env' st payload' rb slug now')) (slug @ ''.png'')"
    if "fst (receive_webhook env st payload rb slug now) = Inr resp"
      and "fst (receive_webhook env' st payload' rb slug now') = Inr resp'"
    by (simp only: img [OF that(1)] img [OF that(2)])
  from img b c d receive_webhook_files [of env st payload rb slug now]
  show ?thesis by blast
qed

theorem image_encodes_redirect_url_witness:
  "''http://qr.test/'' = ''http://qr.test'' @ ''/''
   \<and> fst (receive_webhook calm (init_db ''qr_codes'')
        \<lparr>params = [(''a'', ''1'')], base_url = ''https://example.com/landing''\<rparr>
        ''http://qr.test/'' ''Zm9vYmFyMTI'' ''t0'') =
       Inr (JSONResponse [(''qr_code_url'', ''/static/Zm9vYmFyMTI.png''),
                          (''redirect_url'', ''http://qr.test/r/Zm9vYmFyMTI'')])
   \<and> map_option image_payload (files (snd (receive_webhook calm (init_db ''qr_codes'')
        \<lparr>params = [(''a'', ''1'')], base_url = ''https://example.com/landing''\<rparr>
        ''http://qr.test/'' ''Zm9vYmFyMTI'' ''t0'')) ''Zm9vYmFyMTI.png'') =
       Some ''http://qr.test/r/Zm9vYmFyMTI''"
proof -
  let ?p = "\<lparr>params = [(''a'', ''1'')], base_url = ''https://example.com/landing''\<rparr>"
  let ?ok = "JSONResponse [(''qr_code_url'', ''/static/Zm9vYmFyMTI.png''),
                          (''redirect_url'', ''http://qr.test/r/Zm9vYmFyMTI'')]"
  have i: "fst (receive_webhook calm (init_db ''qr_codes'') ?p ''http://qr.test/''
      ''Zm9vYmFyMTI'' ''t0'') = Inr ?ok"
    by (simp add: webhook_eval init_db_def)
  have e: "''http://qr.test/'' = ''http://qr.test'' @ ''/''" by simp
  note t = image_encodes_redirect_url [where st = "init_db ''qr_codes''" and env = calm
      and payload = ?p and rb = "''http://qr.test/''" and slug = "''Zm9vYmFyMTI''"
      and now = "''t0''" and resolver = "''http://qr.test''" and resp = ?ok
      and env' = calm and payload' = ?p and now' = "''t0''" and resp' = ?ok]
  have m': "map_option image_payload (files (snd (receive_webhook calm (init_db ''qr_codes'') ?p
      ''http://qr.test/'' ''Zm9vYmFyMTI'' ''t0'')) ''Zm9vYmFyMTI.png'') =
       Some ''http://qr.test/r/Zm9vYmFyMTI''"
    using t [THEN conjunct2, THEN conjunct1] i by simp
  from e i m' show ?thesis by (simp only: simp_thms)
qed

text \<open>
  Claim C10. When there are parameters, the question mark is appended whatever the base
  URL holds: the destination URL has one question mark more than the base URL, hence at
  least two when the base URL already has one.
\<close>

theorem double_question_mark:
  "params payload \<noteq> [] \<longrightarrow>
     destination_url payload = base_url payload @ ''?'' @ urlencode (params payload)
     \<and> count_list (destination_url payload) (CHR ''?'') =
         count_list (base_url payload) (CHR ''?'') + 1
     \<and> (CHR ''?'' \<in> set (base_url payload) \<longrightarrow>
          2 \<le> count_list (destination_url payload) (CHR ''?''))"
proof
  assume ne: "params payload \<noteq> []"
  then have eq: "destination_url payload = base_url payload @ ''?'' @ urlencode (params payload)"
    by (simp add: destination_url_def)
  have zero: "count_list (urlencode (params payload)) (CHR ''?'') = 0"
    using urlencode_no_question_mark by (simp add: count_list_0_iff)
  have cnt: "count_list (destination_url payload) (CHR ''?'') =
         count_list (base_url payload) (CHR ''?'') + 1"
    by (simp add: eq zero)
  have "CHR ''?'' \<in> set (base_url payload) \<longrightarrow> 2 \<le> count_list (destination_url payload) (CHR ''?'')"
  proof
    assume "CHR ''?'' \<in> set (base_url payload)"
    then have "0 < count_list (base_url payload) (CHR ''?'')"
      using count_list_0_iff [of "base_url payload" "CHR ''?''"] by auto
    with cnt show "2 \<le> count_list (destination_url payload) (CHR ''?'')" by simp
  qed
  with eq cnt show "destination_url payload = base_url payload @ ''?'' @ urlencode (params payload)
     \<and> count_list (destination_url payload) (CHR ''?'') =
         count_list (base_url payload) (CHR ''?'') + 1
     \<and> (CHR ''?'' \<in> set (base_url payload) \<longrightarrow>
          2 \<le> count_list (destination_url payload) (CHR ''?''))" by blast
qed

theorem double_question_mark_witness:
  "params \<lparr>params = [(''b'', ''2'')], base_url = ''https://example.com/p?a=1''\<rparr> \<noteq> []
   \<and> CHR ''?'' \<in> set (base_url \<lparr>params = [(''b'', ''2'')], base_url = ''https://example.com/p?a=1''\<rparr>)
   \<and> destination_url \<lparr>params = [(''b'', ''2'')], base_url = ''https://example.com/p?a=1''\<rparr> =
        ''https://example.com/p?a=1?b=2''
   \<and> count_list (destination_url \<lparr>params = [(''b'', ''2'')], base_url = ''https://example.com/p?a=1''\<rparr>)
        (CHR ''?'') = 2"
proof -
  have enc: "urlencode [(''b'', ''2'')] = ''b=2''"
    by (simp add: urlencode_def quote_plus_def quote_byte_def ALWAYS_SAFE_def)
  from double_question_mark [of "\<lparr>params = [(''b'', ''2'')], base_url = ''https://example.com/p?a=1''\<rparr>"]
    enc show ?thesis by simp
qed

end
